theory Spec2Isabelle
  imports Complex_Main "HOL-Library.Sublist" "HOL-Library.Product_Lexorder"
begin

section \<open>Brand reputation management: policy, alerts, routing, bookkeeping\<close>

text \<open>
  A shallow embedding of the decision logic of the multi-agent brand reputation system.
  Python floats are values of type \<open>rat\<close>: exact rationals in the bookkeeping and
  the risk score, and doubles with their rounding in the alert rules, where a computed
  value is compared with a threshold. Dictionaries with a fixed set of keys are records,
  dictionaries of untyped JSON values association lists, counters that start at 0 and are
  only incremented naturals, mutation is explicit state passing, and every \<open>raise\<close>
  is the \<open>Inl\<close> branch of a sum.
\<close>

subsection \<open>Performance bookkeeping\<close>

text \<open>
  \<open>LangChainOrchestrator.orchestration_metrics\<close> (orchestrator_llm.py), the fields
  that \<open>_update_orchestration_metrics\<close> reads or writes.
\<close>

record orchestration_metrics =
  total_tasks :: nat
  successful_tasks :: nat
  failed_tasks :: nat
  avg_completion_time :: rat

definition init_orchestration_metrics :: orchestration_metrics where
  "init_orchestration_metrics =
     \<lparr>total_tasks = 0, successful_tasks = 0, failed_tasks = 0, avg_completion_time = 0\<rparr>"

definition update_orchestration_metrics ::
  "orchestration_metrics \<Rightarrow> bool \<Rightarrow> rat \<Rightarrow> orchestration_metrics" where
  "update_orchestration_metrics m success duration =
     (let m1 = m\<lparr>total_tasks := total_tasks m + 1\<rparr>;
          m2 = (if success then m1\<lparr>successful_tasks := successful_tasks m1 + 1\<rparr>
                else m1\<lparr>failed_tasks := failed_tasks m1 + 1\<rparr>);
          current_avg = avg_completion_time m2;
          total = total_tasks m2
      in m2\<lparr>avg_completion_time :=
              (current_avg * (of_nat total - 1) + duration) / of_nat total\<rparr>)"

text \<open>
  \<open>IntelligentResponseAgent.response_metrics\<close> (response_generation_agent.py) and
  the part of a generation result that \<open>_update_response_metrics\<close> looks at:
  \<open>result["success"]\<close>, \<open>result.get("quality_assessment", {}).get("quality_score", 0.0)\<close>
  (\<open>None\<close> when a key is missing) and \<open>result.get("knowledge_retrieved", False)\<close>.
\<close>

record response_metrics =
  total_responses_generated :: nat
  successful_responses :: nat
  avg_generation_time :: rat
  avg_quality_score :: rat
  successful_knowledge_retrievals :: "nat option"
  knowledge_retrieval_success_rate :: rat

record generation_result =
  success :: bool
  result_quality_score :: "rat option"
  knowledge_retrieved :: bool

definition init_response_metrics :: response_metrics where
  "init_response_metrics =
     \<lparr>total_responses_generated = 0, successful_responses = 0, avg_generation_time = 0,
      avg_quality_score = 0, successful_knowledge_retrievals = None,
      knowledge_retrieval_success_rate = 0\<rparr>"

definition update_response_metrics ::
  "response_metrics \<Rightarrow> generation_result \<Rightarrow> rat \<Rightarrow> response_metrics" where
  "update_response_metrics m result generation_time =
     (let m1 = m\<lparr>total_responses_generated := total_responses_generated m + 1\<rparr>;
          m2 = (if success result then m1\<lparr>successful_responses := successful_responses m1 + 1\<rparr>
                else m1);
          current_avg = avg_generation_time m2;
          total_responses = total_responses_generated m2;
          m3 = m2\<lparr>avg_generation_time :=
                 (current_avg * (of_nat total_responses - 1) + generation_time)
                   / of_nat total_responses\<rparr>;
          quality_score = (case result_quality_score result of None \<Rightarrow> 0 | Some q \<Rightarrow> q);
          current_quality_avg = avg_quality_score m3;
          m4 = m3\<lparr>avg_quality_score :=
                 (current_quality_avg * (of_nat total_responses - 1) + quality_score)
                   / of_nat total_responses\<rparr>
      in if knowledge_retrieved result
         then (let successful_retrievals =
                     (case successful_knowledge_retrievals m4 of None \<Rightarrow> 0 | Some k \<Rightarrow> k) + 1
               in m4\<lparr>successful_knowledge_retrievals := Some successful_retrievals,
                      knowledge_retrieval_success_rate :=
                        of_nat successful_retrievals / of_nat total_responses\<rparr>)
         else m4)"

text \<open>
  The naive definition the incremental one is compared with: the mean recomputed from the
  full history of samples (0.0, the initial value, when there is no sample yet).
\<close>

definition naive_mean :: "rat list \<Rightarrow> rat" where
  "naive_mean xs = (if xs = [] then 0 else sum_list xs / of_nat (length xs))"

text \<open>One call of the bookkeeping update per completed task, oldest task first.\<close>

definition run_orchestration_metrics :: "(bool \<times> rat) list \<Rightarrow> orchestration_metrics" where
  "run_orchestration_metrics tasks =
     foldl (\<lambda>m (ok, d). update_orchestration_metrics m ok d) init_orchestration_metrics tasks"

definition run_response_metrics :: "(generation_result \<times> rat) list \<Rightarrow> response_metrics" where
  "run_response_metrics tasks =
     foldl (\<lambda>m (r, t). update_response_metrics m r t) init_response_metrics tasks"

definition quality_sample :: "generation_result \<Rightarrow> rat" where
  "quality_sample r = (case result_quality_score r of None \<Rightarrow> 0 | Some q \<Rightarrow> q)"

subsection \<open>Workflow routing\<close>

text \<open>
  The fields of \<open>AgentWorkflowState\<close> (langgraph_orchestrator.py) that
  \<open>_route_after_data_collection\<close> reads or writes: \<open>failed_steps\<close>,
  \<open>context["data_collection_retries"]\<close> (absent until the first retry) and
  \<open>collected_data["mentions"]\<close> (absent when nothing was collected). The router
  mutates the state, so the model returns the route together with the new state.
\<close>

record 'm workflow_state =
  failed_steps :: "string list"
  data_collection_retries :: "int option"
  mentions :: "'m list option"

definition route_after_data_collection ::
  "'m workflow_state \<Rightarrow> string \<times> 'm workflow_state" where
  "route_after_data_collection state =
     (if ''collect_data'' \<in> set (failed_steps state) then
        (let retry_count = (case data_collection_retries state of None \<Rightarrow> 0 | Some n \<Rightarrow> n)
         in if retry_count < 2
            then (''retry_collection'', state\<lparr>data_collection_retries := Some (retry_count + 1)\<rparr>)
            else (''abort'', state))
      else
        (let collected_mentions = length (case mentions state of None \<Rightarrow> [] | Some ms \<Rightarrow> ms)
         in if collected_mentions > 0 then (''analyze_sentiment'', state)
            else (''abort'', state)))"

definition retry_counter :: "'m workflow_state \<Rightarrow> int" where
  "retry_counter state = (case data_collection_retries state of None \<Rightarrow> 0 | Some n \<Rightarrow> n)"

definition collected_count :: "'m workflow_state \<Rightarrow> nat" where
  "collected_count state = length (case mentions state of None \<Rightarrow> [] | Some ms \<Rightarrow> ms)"


subsection \<open>Python values, exceptions and strings\<close>

text \<open>
  The mention, the quality assessment and the brand context handed to the response agent
  are \<open>Dict[str, Any]\<close>: JSON documents whose values have no fixed type. They are
  modelled as association lists of \<open>pyval\<close>, so that a value of the wrong type is an
  input of the model and the exception it raises in Python is a result of the model.
  Floats are exact rationals; NaN and the infinities are outside the model.
\<close>

datatype py_error = TypeError | AttributeError | KeyError | ZeroDivisionError

datatype pyval =
    PNone
  | PBool bool
  | PNum rat
  | PStr string
  | PList "pyval list"
  | PDict "(string \<times> pyval) list"

type_synonym pydict = "(string \<times> pyval) list"

text \<open>Sequencing of steps that may raise: the first exception ends the computation.\<close>

definition bind_err :: "'e + 'a \<Rightarrow> ('a \<Rightarrow> 'e + 'b) \<Rightarrow> 'e + 'b" where
  "bind_err m f = (case m of Inl e \<Rightarrow> Inl e | Inr x \<Rightarrow> f x)"

text \<open>\<open>d.get(k, default)\<close> on a dictionary.\<close>

definition dict_get :: "pydict \<Rightarrow> string \<Rightarrow> pyval \<Rightarrow> pyval" where
  "dict_get d k dflt = (case map_of d k of None \<Rightarrow> dflt | Some v \<Rightarrow> v)"

text \<open>\<open>obj.get(k, default)\<close> on any value: only a dictionary has the method.\<close>

definition py_get :: "pyval \<Rightarrow> string \<Rightarrow> pyval \<Rightarrow> py_error + pyval" where
  "py_get obj k dflt =
     (case obj of PDict d \<Rightarrow> Inr (dict_get d k dflt) | _ \<Rightarrow> Inl AttributeError)"

text \<open>
  A value used in arithmetic or compared with a number: numbers and booleans (a
  subclass of \<open>int\<close> in Python) are accepted, anything else raises \<open>TypeError\<close>.
\<close>

definition as_number :: "pyval \<Rightarrow> py_error + rat" where
  "as_number v =
     (case v of PNum r \<Rightarrow> Inr r | PBool b \<Rightarrow> Inr (if b then 1 else 0) | _ \<Rightarrow> Inl TypeError)"

text \<open>A value used as a condition.\<close>

definition truthy :: "pyval \<Rightarrow> bool" where
  "truthy v =
     (case v of PNone \<Rightarrow> False | PBool b \<Rightarrow> b | PNum r \<Rightarrow> r \<noteq> 0 | PStr s \<Rightarrow> s \<noteq> []
        | PList xs \<Rightarrow> xs \<noteq> [] | PDict d \<Rightarrow> d \<noteq> [])"

text \<open>\<open>obj.lower()\<close> on any value: only a string has the method.\<close>

definition lower_char :: "char \<Rightarrow> char" where
  "lower_char c =
     (case map_of (zip ''ABCDEFGHIJKLMNOPQRSTUVWXYZ'' ''abcdefghijklmnopqrstuvwxyz'') c of
        None \<Rightarrow> c | Some l \<Rightarrow> l)"

definition lower :: "string \<Rightarrow> string" where
  "lower s = map lower_char s"

definition py_lower :: "pyval \<Rightarrow> py_error + string" where
  "py_lower v = (case v of PStr s \<Rightarrow> Inr (lower s) | _ \<Rightarrow> Inl AttributeError)"

text \<open>\<open>sub in s\<close> on strings: \<open>sub\<close> occurs in \<open>s\<close> as a contiguous substring.\<close>

fun py_in :: "string \<Rightarrow> string \<Rightarrow> bool" where
  "py_in sub [] = (sub = [])"
| "py_in sub (c # cs) = (prefix sub (c # cs) \<or> py_in sub cs)"

text \<open>\<open>min(1.0, max(0.0, x))\<close>.\<close>

definition clamp01 :: "rat \<Rightarrow> rat" where
  "clamp01 x = min 1 (max 0 x)"

subsection \<open>Response quality evaluation\<close>

text \<open>
  \<open>ResponseQualityTool._run\<close> (response_generation_agent.py). Its arguments are
  strings; the result is the dictionary it serialises, without the evaluation timestamp.
  The five checks are named so that the score can be read off them.
\<close>

definition positive_indicators :: "string list" where
  "positive_indicators =
     [''thank'', ''appreciate'', ''help'', ''sorry'', ''understand'', ''glad'', ''happy'']"

definition negative_indicators :: "string list" where
  "negative_indicators = [''no'', ''can't'', ''won't'', ''impossible'', ''never'']"

definition unprofessional_words :: "string list" where
  "unprofessional_words = [''damn'', ''hell'', ''stupid'', ''ridiculous'']"

definition action_words :: "string list" where
  "action_words = [''contact'', ''visit'', ''email'', ''call'', ''dm'', ''message'', ''support'']"

definition length_ok :: "string \<Rightarrow> bool" where
  "length_ok response = (10 \<le> length response \<and> length response \<le> 280)"

definition tone_ok :: "string \<Rightarrow> bool" where
  "tone_ok response =
     (let positive_count = length (filter (\<lambda>word. py_in word (lower response)) positive_indicators);
          negative_count = length (filter (\<lambda>word. py_in word (lower response)) negative_indicators)
      in positive_count > negative_count)"

definition professional :: "string \<Rightarrow> bool" where
  "professional response = (\<not> list_ex (\<lambda>word. py_in word (lower response)) unprofessional_words)"

definition brand_in_response :: "string \<Rightarrow> string \<Rightarrow> bool" where
  "brand_in_response response brand_name =
     (brand_name \<noteq> [] \<and> py_in (lower brand_name) (lower response))"

definition has_action :: "string \<Rightarrow> bool" where
  "has_action response = list_ex (\<lambda>word. py_in word (lower response)) action_words"

record quality_result =
  quality_score :: rat
  assessment :: string
  feedback :: "string list"
  response_length :: nat
  brand_mentioned :: bool

definition ResponseQualityTool_run :: "string \<Rightarrow> string \<Rightarrow> string \<Rightarrow> quality_result" where
  "ResponseQualityTool_run response original_mention brand_name =
     (let (s1, f1) =
            (if length_ok response then (0 + 2 / 10, [])
             else (0, [''Consider adjusting response length for social media appropriateness'']));
          (s2, f2) =
            (if tone_ok response then (s1 + 3 / 10, f1)
             else (s1, f1 @ [''Consider using more positive language'']));
          (s3, f3) =
            (if professional response then (s2 + 2 / 10, f2)
             else (s2, f2 @ [''Remove unprofessional language'']));
          s4 = (if brand_in_response response brand_name then s3 + 1 / 10 else s3);
          (s5, f5) =
            (if has_action response then (s4 + 2 / 10, f3)
             else (s4, f3 @ [''Consider adding clear next steps for the customer'']));
          verdict =
            (if s5 \<ge> 8 / 10 then ''excellent''
             else if s5 \<ge> 6 / 10 then ''good''
             else if s5 \<ge> 4 / 10 then ''needs_improvement''
             else ''poor'')
      in \<lparr>quality_score = s5, assessment = verdict, feedback = f5,
          response_length = length response,
          brand_mentioned = (if brand_name \<noteq> [] then py_in (lower brand_name) (lower response)
                             else False)\<rparr>)"

text \<open>The fixed bonuses of the five checks, in the order the checks are made.\<close>

definition quality_bonuses :: "rat list" where
  "quality_bonuses = [2 / 10, 3 / 10, 2 / 10, 1 / 10, 2 / 10]"

definition subset_sums :: "rat list \<Rightarrow> rat set" where
  "subset_sums bs = set (map sum_list (subseqs bs))"

subsection \<open>Risk scoring\<close>

text \<open>\<open>Settings\<close> (core/config.py): the two thresholds of the approval policy.\<close>

record settings =
  AUTO_RESPONSE_RISK_THRESHOLD :: rat
  HUMAN_REVIEW_RISK_THRESHOLD :: rat

definition default_settings :: settings where
  "default_settings =
     \<lparr>AUTO_RESPONSE_RISK_THRESHOLD = 3 / 10, HUMAN_REVIEW_RISK_THRESHOLD = 7 / 10\<rparr>"

definition high_risk_topics :: "string list" where
  "high_risk_topics =
     [''lawsuit'', ''legal'', ''court'', ''sue'', ''attorney'', ''lawyer'',
      ''discrimination'', ''harassment'', ''bias'', ''racist'', ''sexist'',
      ''medical'', ''health'', ''diagnosis'', ''treatment'', ''medication'',
      ''financial'', ''investment'', ''stock'', ''price'', ''earnings'']"

definition commitment_words :: "string list" where
  "commitment_words =
     [''guarantee'', ''promise'', ''will definitely'', ''absolutely will'', ''we ensure'']"

record content_risks =
  cr_risk_score :: rat
  cr_risk_factors :: "string list"

text \<open>
  The score \<open>_analyze_content_risk\<close> accumulates before it is capped: 0.1 per
  high-risk topic found in the response or the mention, 0.05 per commitment word found in
  the response, and 0.1 for a response under 20 characters or 0.05 for one over 500.
\<close>

definition content_hits :: "string \<Rightarrow> string \<Rightarrow> rat \<times> string list" where
  "content_hits response mention_content =
     (let response_lower = lower response;
          a1 = foldl (\<lambda>(risk_score, risk_factors) topic.
                        if py_in topic response_lower \<or> py_in topic mention_content
                        then (risk_score + 1 / 10, risk_factors @ [''high_risk_topic_'' @ topic])
                        else (risk_score, risk_factors))
                 (0, []) high_risk_topics;
          a2 = foldl (\<lambda>(risk_score, risk_factors) word.
                        if py_in word response_lower
                        then (risk_score + 5 / 100, risk_factors @ [''strong_commitment_language''])
                        else (risk_score, risk_factors))
                 a1 commitment_words
      in if length response < 20 then (fst a2 + 1 / 10, snd a2 @ [''response_too_short''])
         else if length response > 500 then (fst a2 + 5 / 100, snd a2 @ [''response_very_long''])
         else a2)"

definition analyze_content_risk :: "string \<Rightarrow> pydict \<Rightarrow> py_error + content_risks" where
  "analyze_content_risk response mention =
     bind_err (py_lower (dict_get mention ''content'' (PStr ''''))) (\<lambda>mention_content.
       let (risk_score, risk_factors) = content_hits response mention_content
       in Inr \<lparr>cr_risk_score = min 1 risk_score, cr_risk_factors = risk_factors\<rparr>)"

record component_risks =
  quality_risk :: rat
  sentiment_risk :: rat
  virality_risk :: rat
  content_risk :: rat
  crisis_risk :: rat

record risk_analysis =
  overall_risk_score :: rat
  risk_factors :: "string list"
  component_risks :: component_risks
  risk_category :: string

text \<open>\<open>engagement.get(key, 0) > bound\<close>.\<close>

definition metric_above :: "pyval \<Rightarrow> string \<Rightarrow> rat \<Rightarrow> py_error + bool" where
  "metric_above engagement k bound =
     bind_err (py_get engagement k (PNum 0)) (\<lambda>v.
       bind_err (as_number v) (\<lambda>n. Inr (n > bound)))"

text \<open>The \<open>or\<close> of the three engagement tests, evaluated left to right and cut short.\<close>

definition high_engagement :: "pyval \<Rightarrow> py_error + bool" where
  "high_engagement engagement =
     bind_err (metric_above engagement ''likes'' 100) (\<lambda>l.
       if l then Inr True
       else bind_err (metric_above engagement ''retweets'' 50) (\<lambda>r.
         if r then Inr True
         else metric_above engagement ''shares'' 25))"

text \<open>
  \<open>_calculate_comprehensive_risk_score\<close>. \<open>list(set(risk_factors))\<close> removes
  duplicates in an order Python does not fix; the model keeps the first occurrences.
\<close>

definition calculate_comprehensive_risk_score ::
  "string \<Rightarrow> pydict \<Rightarrow> pydict \<Rightarrow> pydict option \<Rightarrow> py_error + risk_analysis" where
  "calculate_comprehensive_risk_score response mention quality_assessment brand_context =
     bind_err (as_number (dict_get quality_assessment ''quality_score'' (PNum (1 / 2)))) (\<lambda>q.
       let quality_risk' = (1 - q) * (3 / 10);
           rf1 = (if q < 6 / 10 then [''low_response_quality''] else []);
           mention_sentiment = dict_get mention ''sentiment'' (PStr ''neutral'');
           (sentiment_risk', rf2) =
             (if mention_sentiment = PStr ''negative''
              then ((2 / 10) * (25 / 100), rf1 @ [''negative_customer_sentiment''])
              else if mention_sentiment = PStr ''positive'' then ((5 / 100) * (25 / 100), rf1)
              else ((1 / 10) * (25 / 100), rf1));
           engagement = dict_get mention ''engagement_metrics'' (PDict [])
       in bind_err (high_engagement engagement) (\<lambda>high.
            let (virality_risk', rf3) =
                  (if high then ((3 / 10) * (2 / 10), rf2 @ [''high_visibility_mention''])
                   else ((1 / 10) * (2 / 10), rf2))
            in bind_err (analyze_content_risk response mention) (\<lambda>content_risks.
                 let content_risk' = cr_risk_score content_risks * (15 / 100);
                     rf4 = rf3 @ cr_risk_factors content_risks;
                     crisis_indicators = dict_get mention ''crisis_indicators'' (PDict [])
                 in bind_err (py_get crisis_indicators ''crisis_detected'' (PBool False))
                      (\<lambda>detected.
                         let (crisis_risk', rf5) =
                               (if truthy detected
                                then ((4 / 10) * (1 / 10), rf4 @ [''crisis_situation_detected''])
                                else ((5 / 100) * (1 / 10), rf4));
                             risk_score =
                               clamp01 (0 + quality_risk' + sentiment_risk' + virality_risk'
                                          + content_risk' + crisis_risk')
                         in Inr \<lparr>overall_risk_score = risk_score,
                                 risk_factors = remdups rf5,
                                 component_risks =
                                   \<lparr>quality_risk = quality_risk',
                                    sentiment_risk = sentiment_risk',
                                    virality_risk = virality_risk',
                                    content_risk = content_risk',
                                    crisis_risk = crisis_risk'\<rparr>,
                                 risk_category =
                                   (if risk_score < 3 / 10 then ''low''
                                    else if risk_score < 7 / 10 then ''medium''
                                    else ''high'')\<rparr>))))"

text \<open>Recomputing the total from the reported components, as a reader of the result would.\<close>

definition recompute_total :: "component_risks \<Rightarrow> rat" where
  "recompute_total c =
     clamp01 (quality_risk c + sentiment_risk c + virality_risk c + content_risk c
                + crisis_risk c)"

subsection \<open>Approval policy\<close>

text \<open>
  \<open>_suggest_appropriate_reviewers\<close>: risk-factor tags mapped to reviewer roles, with
  duplicates removed.
\<close>

definition suggest_appropriate_reviewers :: "string list \<Rightarrow> string list" where
  "suggest_appropriate_reviewers factors =
     (let r1 = (if list_ex (\<lambda>factor. py_in ''crisis'' factor) factors
                then [''crisis_manager'', ''brand_director'', ''ceo''] else []);
          r2 = (if list_ex (\<lambda>factor. py_in ''legal'' factor) factors
                then r1 @ [''legal_team'', ''compliance_officer''] else r1);
          r3 = (if list_ex (\<lambda>factor. py_in ''medical'' factor \<or> py_in ''health'' factor) factors
                then r2 @ [''medical_affairs'', ''regulatory_team''] else r2);
          r4 = (if list_ex (\<lambda>factor. py_in ''financial'' factor) factors
                then r3 @ [''investor_relations'', ''cfo''] else r3);
          r5 = (if list_ex (\<lambda>factor. py_in ''high_visibility'' factor) factors
                then r4 @ [''social_media_manager'', ''pr_manager''] else r4);
          reviewers = (if r5 = [] then [''social_media_manager'', ''customer_service_manager'']
                       else r5)
      in remdups reviewers)"

text \<open>
  What \<open>_make_contextual_risk_decision\<close> reads of the wall clock:
  \<open>datetime.now().hour\<close> and \<open>datetime.now().weekday()\<close>.
\<close>

record wall_clock =
  hour :: nat
  weekday :: nat

record contextual_decision =
  status :: string
  requires_review :: bool
  action :: string
  factors :: "string list"

definition make_contextual_risk_decision ::
  "settings \<Rightarrow> wall_clock \<Rightarrow> string \<Rightarrow> pydict \<Rightarrow> risk_analysis \<Rightarrow> pydict option
     \<Rightarrow> py_error + contextual_decision" where
  "make_contextual_risk_decision cfg now response mention analysis brand_context =
     bind_err (py_lower (dict_get mention ''platform'' (PStr ''unknown''))) (\<lambda>platform.
       let time_of_day = hour now;
           is_weekend = (weekday now \<ge> 5);
           (bias1, cf1) =
             (if platform = ''twitter'' then (1 / 10, [''twitter_fast_paced_platform''])
              else if platform = ''linkedin'' then (- (1 / 10), [''linkedin_professional_platform''])
              else (0, []));
           (bias2, cf2) =
             (if 9 \<le> time_of_day \<and> time_of_day \<le> 17 \<and> \<not> is_weekend
              then (bias1 - 5 / 100, cf1 @ [''business_hours_reviewers_available''])
              else (bias1 + 1 / 10, cf1 @ [''outside_business_hours'']));
           crisis_mode =
             (case brand_context of
                None \<Rightarrow> False
              | Some bc \<Rightarrow> bc \<noteq> [] \<and> truthy (dict_get bc ''crisis_mode'' (PBool False)));
           (auto_approve_bias, contextual_factors) =
             (if crisis_mode then (bias2 - 2 / 10, cf2 @ [''brand_in_crisis_mode''])
              else (bias2, cf2));
           adjusted_threshold = AUTO_RESPONSE_RISK_THRESHOLD cfg + auto_approve_bias;
           risk_score = overall_risk_score analysis
       in if risk_score < adjusted_threshold
          then Inr \<lparr>status = ''approved_contextual'', requires_review = False,
                    action = ''publish_immediately'', factors = contextual_factors\<rparr>
          else Inr \<lparr>status = ''pending_approval'', requires_review = True,
                    action = ''escalate_for_approval'', factors = contextual_factors\<rparr>)"

text \<open>
  The decision dictionary, without its formatted \<open>decision_reasoning\<close> text and its
  timestamp. Keys that only some branches set are optional.
\<close>

record approval_decision =
  approval_status :: string
  autonomous_decision :: bool
  requires_human_review :: bool
  recommended_action :: string
  confidence :: string
  escalation_triggers :: "string list option"
  suggested_reviewers :: "string list option"
  contextual_factors :: "string list option"
  decision_risk_analysis :: "risk_analysis option"
  thresholds_used :: "(rat \<times> rat) option"
  decision_error :: "py_error option"

text \<open>\<open>decision.update({...})\<close>: the metadata added to every decision of the try block.\<close>

definition add_decision_metadata ::
  "settings \<Rightarrow> risk_analysis \<Rightarrow> approval_decision \<Rightarrow> approval_decision" where
  "add_decision_metadata cfg analysis decision =
     decision\<lparr>decision_risk_analysis := Some analysis,
              thresholds_used :=
                Some (AUTO_RESPONSE_RISK_THRESHOLD cfg, HUMAN_REVIEW_RISK_THRESHOLD cfg)\<rparr>"

text \<open>
  The body of the \<open>try\<close> block of \<open>_make_autonomous_approval_decision\<close>. In the
  high-risk branch the source also calls \<open>_trigger_human_review_alert\<close>, which builds a
  notification and writes it to the log; it changes nothing the decision depends on.
\<close>

definition approval_decision_body ::
  "settings \<Rightarrow> wall_clock \<Rightarrow> string \<Rightarrow> pydict \<Rightarrow> pydict \<Rightarrow> pydict option
     \<Rightarrow> py_error + approval_decision" where
  "approval_decision_body cfg now response mention quality_assessment brand_context =
     bind_err (calculate_comprehensive_risk_score response mention quality_assessment brand_context)
       (\<lambda>analysis.
          let risk_score = overall_risk_score analysis;
              factors' = risk_factors analysis
          in if risk_score < AUTO_RESPONSE_RISK_THRESHOLD cfg then
               Inr (add_decision_metadata cfg analysis
                 \<lparr>approval_status = ''approved_auto'', autonomous_decision = True,
                  requires_human_review = False, recommended_action = ''publish_immediately'',
                  confidence = ''high'', escalation_triggers = None, suggested_reviewers = None,
                  contextual_factors = None, decision_risk_analysis = None,
                  thresholds_used = None, decision_error = None\<rparr>)
             else if risk_score > HUMAN_REVIEW_RISK_THRESHOLD cfg then
               Inr (add_decision_metadata cfg analysis
                 \<lparr>approval_status = ''pending_approval'', autonomous_decision = True,
                  requires_human_review = True, recommended_action = ''escalate_for_approval'',
                  confidence = ''high'', escalation_triggers = Some factors',
                  suggested_reviewers = Some (suggest_appropriate_reviewers factors'),
                  contextual_factors = None, decision_risk_analysis = None,
                  thresholds_used = None, decision_error = None\<rparr>)
             else
               bind_err (make_contextual_risk_decision cfg now response mention analysis
                           brand_context)
                 (\<lambda>contextual.
                    Inr (add_decision_metadata cfg analysis
                      \<lparr>approval_status = status contextual, autonomous_decision = True,
                       requires_human_review = requires_review contextual,
                       recommended_action = action contextual, confidence = ''medium'',
                       escalation_triggers = None, suggested_reviewers = None,
                       contextual_factors = Some (factors contextual),
                       decision_risk_analysis = None, thresholds_used = None,
                       decision_error = None\<rparr>)))"

text \<open>The decision of the \<open>except Exception\<close> handler.\<close>

definition fail_safe_decision :: "py_error \<Rightarrow> approval_decision" where
  "fail_safe_decision e =
     \<lparr>approval_status = ''pending_approval'', autonomous_decision = False,
      requires_human_review = True, recommended_action = ''escalate_for_approval'',
      confidence = ''low'', escalation_triggers = None, suggested_reviewers = None,
      contextual_factors = None, decision_risk_analysis = None, thresholds_used = None,
      decision_error = Some e\<rparr>"

definition make_autonomous_approval_decision ::
  "settings \<Rightarrow> wall_clock \<Rightarrow> string \<Rightarrow> pydict \<Rightarrow> pydict \<Rightarrow> pydict option
     \<Rightarrow> approval_decision" where
  "make_autonomous_approval_decision cfg now response mention quality_assessment brand_context =
     (case approval_decision_body cfg now response mention quality_assessment brand_context of
        Inr decision \<Rightarrow> decision
      | Inl e \<Rightarrow> fail_safe_decision e)"

subsection \<open>Double-precision arithmetic\<close>

text \<open>
  The alert rules compare computed averages and differences with their thresholds, and at
  a boundary the rounding of the interpreter's doubles decides the outcome: in doubles
  \<open>4/5 - 0.5\<close> is above \<open>0.3\<close>. The rules therefore take the float operations they
  use from a record, so that what is proved about them holds for whatever these operations
  compute. \<open>double_arith\<close> is IEEE-754 binary64 with rounding to nearest, ties to even,
  on values given as exact rationals (the exponent range, NaN and the infinities are not
  modelled); its \<open>fsum\<close> is the builtin \<open>sum\<close> as repeated addition from the left,
  as CPython computes it before version 3.12 (later versions compensate the rounding
  errors of the additions, which is another value of the same field).
\<close>

function bit_length :: "int \<Rightarrow> int" where
  "bit_length n = (if n \<le> 0 then 0 else 1 + bit_length (n div 2))"
  by pat_completeness auto
termination
  by (relation "measure nat") auto

definition pow2 :: "int \<Rightarrow> rat" where
  "pow2 k = (if k \<ge> 0 then 2 ^ nat k else 1 / 2 ^ nat (- k))"

text \<open>The exponent \<open>e\<close> with \<open>2 ^ e \<le> x < 2 ^ (e + 1)\<close>, for a positive \<open>x\<close>.\<close>

definition floor_log2 :: "rat \<Rightarrow> int" where
  "floor_log2 x =
     (let (p, q) = quotient_of x;
          e0 = bit_length p - bit_length q
      in if pow2 e0 \<le> x then e0 else e0 - 1)"

definition round_half_even :: "rat \<Rightarrow> int" where
  "round_half_even m =
     (let f = \<lfloor>m\<rfloor>; d = m - of_int f
      in if d < 1 / 2 then f else if d > 1 / 2 then f + 1
         else if even f then f else f + 1)"

text \<open>The double nearest to a rational: a significand of 53 bits.\<close>

definition round_double :: "rat \<Rightarrow> rat" where
  "round_double x =
     (if x = 0 then 0
      else (let a = \<bar>x\<bar>;
                scale = pow2 (floor_log2 a - 52);
                m = round_half_even (a / scale)
            in sgn x * of_int m * scale))"

record float_arith =
  fdiv :: "rat \<Rightarrow> rat \<Rightarrow> rat"
  fsub :: "rat \<Rightarrow> rat \<Rightarrow> rat"
  fmul :: "rat \<Rightarrow> rat \<Rightarrow> rat"
  fsum :: "rat list \<Rightarrow> rat"

definition double_arith :: float_arith where
  "double_arith =
     \<lparr>fdiv = (\<lambda>a b. round_double (a / b)),
      fsub = (\<lambda>a b. round_double (a - b)),
      fmul = (\<lambda>a b. round_double (a * b)),
      fsum = foldl (\<lambda>acc x. round_double (acc + x)) 0\<rparr>"

subsection \<open>Alert engine\<close>

text \<open>
  \<open>AlertManagementAgent\<close> (alert_management_agent.py). An analysed item is a dictionary
  whose \<open>sentiment\<close> and \<open>crisis_indicators\<close> entries are dictionaries; the model
  keeps the keys the rules decide on, with \<open>None\<close> for a missing key (the crisis
  keywords only feed a report field of the alert). What can still raise on such items is
  modelled: a label that is not a key of a lookup table (\<open>KeyError\<close>) and a
  division by zero.
\<close>

record analyzed_item =
  sentiment_overall :: "string option"
  sentiment_confidence :: "rat option"
  has_indicators :: bool
  risk_level :: "string option"

text \<open>
  \<open>self.alert_rules\<close>: the thresholds the rules read. The first three come from the
  settings (\<open>NEGATIVE_SENTIMENT_THRESHOLD\<close>, \<open>CRISIS_MENTION_THRESHOLD\<close>,
  \<open>VOLUME_SPIKE_MULTIPLIER\<close>), the last is the constant 0.3 of the constructor.
\<close>

record alert_rule_config =
  negative_threshold :: rat
  volume_threshold :: int
  multiplier :: rat
  threshold_change :: rat

definition default_alert_rules :: alert_rule_config where
  "default_alert_rules =
     \<lparr>negative_threshold = round_double (7 / 10), volume_threshold = 10, multiplier = 3,
      threshold_change = round_double (3 / 10)\<rparr>"

text \<open>
  \<open>self.historical_data\<close> is one dictionary for both windows: the volume rule stores
  \<open>{"volume", "timestamp"}\<close> entries under \<open>f"{brand_id}_{platform}"\<close>, the
  sentiment rule \<open>{"negative_ratio", "timestamp"}\<close> entries under
  \<open>f"{brand_id}_{platform}_sentiment"\<close>.
\<close>

datatype hist_entry = Volume nat rat | NegativeRatio rat rat

fun entry_timestamp :: "hist_entry \<Rightarrow> rat" where
  "entry_timestamp (Volume v t) = t"
| "entry_timestamp (NegativeRatio r t) = t"

text \<open>
  An alert, without the fields that only report figures (counts, rounded averages,
  descriptions, detail lists). \<open>_process_alerts\<close> adds the brand and the alert id
  \<open>f"{brand_id}_{type}_{int(time.time())}"\<close>, kept here as its three components.
\<close>

record alert =
  alert_type :: string
  severity :: string
  alert_platform :: string
  alert_timestamp :: rat
  alert_brand_id :: "string option"
  alert_id :: "(string \<times> string \<times> int) option"

text \<open>
  The agent's state, with the clock it reads: the \<open>n\<close>-th call of \<open>time.time()\<close>
  returns \<open>clock n\<close>, and \<open>ticks\<close> counts the calls made so far. \<open>error_log\<close>
  holds the exceptions written with \<open>logger.error\<close>, and \<open>arith\<close> is the float
  arithmetic of the interpreter the agent runs on. The cutoff \<open>time.time() - 604800\<close>
  (or \<open>86400\<close>) is kept exact: for a clock reading below \<open>2 ^ 31\<close> seconds both
  operands and the result are multiples of the reading's last bit, so the double
  subtraction does not round.
\<close>

record alert_agent =
  alert_rules :: alert_rule_config
  historical_data :: "string \<rightharpoonup> hist_entry list"
  active_alerts :: "(string \<times> string \<times> int) \<rightharpoonup> alert"
  total_alerts :: nat
  alerts_by_type :: "string \<rightharpoonup> nat"
  alerts_by_severity :: "string \<rightharpoonup> nat"
  error_log :: "py_error list"
  clock :: "nat \<Rightarrow> rat"
  ticks :: nat
  arith :: float_arith

definition init_alert_agent :: "alert_rule_config \<Rightarrow> (nat \<Rightarrow> rat) \<Rightarrow> alert_agent" where
  "init_alert_agent rules clk =
     \<lparr>alert_rules = rules, historical_data = Map.empty, active_alerts = Map.empty,
      total_alerts = 0, alerts_by_type = Map.empty,
      alerts_by_severity = [''low'' \<mapsto> 0, ''medium'' \<mapsto> 0, ''high'' \<mapsto> 0, ''critical'' \<mapsto> 0],
      error_log = [], clock = clk, ticks = 0, arith = double_arith\<rparr>"

definition time_time :: "alert_agent \<Rightarrow> rat \<times> alert_agent" where
  "time_time st = (clock st (ticks st), st\<lparr>ticks := ticks st + 1\<rparr>)"

definition window :: "alert_agent \<Rightarrow> string \<Rightarrow> hist_entry list" where
  "window st k = (case historical_data st k of None \<Rightarrow> [] | Some w \<Rightarrow> w)"

definition volume_key :: "string \<Rightarrow> string \<Rightarrow> string" where
  "volume_key brand_id platform = brand_id @ ''_'' @ platform"

definition sentiment_key :: "string \<Rightarrow> string \<Rightarrow> string" where
  "sentiment_key brand_id platform = brand_id @ ''_'' @ platform @ ''_sentiment''"

definition new_alert :: "string \<Rightarrow> string \<Rightarrow> string \<Rightarrow> rat \<Rightarrow> alert" where
  "new_alert kind sev platform now =
     \<lparr>alert_type = kind, severity = sev, alert_platform = platform, alert_timestamp = now,
      alert_brand_id = None, alert_id = None\<rparr>"

subsubsection \<open>Negative-sentiment spike\<close>

definition confidence_or_zero :: "analyzed_item \<Rightarrow> rat" where
  "confidence_or_zero item = (case sentiment_confidence item of None \<Rightarrow> 0 | Some c \<Rightarrow> c)"

text \<open>
  The values \<open>item["sentiment"]["confidence"]\<close> that the generator hands to
  \<open>sum\<close>; a missing key raises \<open>KeyError\<close>.
\<close>

fun confidences :: "analyzed_item list \<Rightarrow> py_error + rat list" where
  "confidences [] = Inr []"
| "confidences (item # items) =
     (case sentiment_confidence item of
        None \<Rightarrow> Inl KeyError
      | Some c \<Rightarrow> bind_err (confidences items) (\<lambda>cs. Inr (c # cs)))"

definition check_negative_sentiment_spike ::
  "alert_agent \<Rightarrow> analyzed_item list \<Rightarrow> string \<Rightarrow> string
     \<Rightarrow> (py_error + alert list) \<times> alert_agent" where
  "check_negative_sentiment_spike st data platform brand_id =
     (let negative_mentions =
            filter (\<lambda>item. sentiment_overall item = Some ''negative'' \<and>
                            confidence_or_zero item > negative_threshold (alert_rules st)) data
      in if int (length negative_mentions) \<ge> volume_threshold (alert_rules st) then
           (case confidences negative_mentions of
              Inl e \<Rightarrow> (Inl e, st)
            | Inr values \<Rightarrow>
                if negative_mentions = [] then (Inl ZeroDivisionError, st)
                else
                  (let avg_confidence =
                         fdiv (arith st) (fsum (arith st) values)
                           (of_nat (length negative_mentions));
                       sev = (if avg_confidence > round_double (8 / 10) then ''critical''
                              else ''high'');
                       (now, st1) = time_time st
                   in (Inr [new_alert ''negative_sentiment_spike'' sev platform now], st1)))
         else (Inr [], st))"

subsubsection \<open>Crisis keywords\<close>

definition risk_rank :: "string \<Rightarrow> nat option" where
  "risk_rank = map_of [(''low'', 1), (''medium'', 2), (''high'', 3), (''critical'', 4)]"

text \<open>
  \<open>max(risk_groups.keys(), key=lambda x: {...}[x])\<close>: the rank of every key is looked up
  in turn, a key outside the table raises \<open>KeyError\<close>, and the first key of the highest
  rank wins.
\<close>

fun max_risk_from :: "string \<Rightarrow> nat \<Rightarrow> string list \<Rightarrow> py_error + string" where
  "max_risk_from best r [] = Inr best"
| "max_risk_from best r (k # ks) =
     (case risk_rank k of
        None \<Rightarrow> Inl KeyError
      | Some r' \<Rightarrow> if r' > r then max_risk_from k r' ks else max_risk_from best r ks)"

definition max_risk_level :: "string list \<Rightarrow> py_error + string" where
  "max_risk_level ks =
     (case ks of
        [] \<Rightarrow> Inl KeyError
      | k # rest \<Rightarrow> (case risk_rank k of None \<Rightarrow> Inl KeyError
                                       | Some r \<Rightarrow> max_risk_from k r rest))"

definition check_crisis_keywords ::
  "alert_agent \<Rightarrow> analyzed_item list \<Rightarrow> string \<Rightarrow> string
     \<Rightarrow> (py_error + alert list) \<times> alert_agent" where
  "check_crisis_keywords st data platform brand_id =
     (let crisis_mentions = filter has_indicators data
      in if crisis_mentions \<noteq> [] then
           (let levels = map (\<lambda>mention. case risk_level mention of None \<Rightarrow> ''low''
                                                                   | Some l \<Rightarrow> l) crisis_mentions;
                risk_groups_keys = rev (remdups (rev levels))
            in case max_risk_level risk_groups_keys of
                 Inl e \<Rightarrow> (Inl e, st)
               | Inr max_risk \<Rightarrow>
                   (let (now, st1) = time_time st
                    in (Inr [new_alert ''crisis_keywords_detected'' max_risk platform now], st1)))
         else (Inr [], st))"

subsubsection \<open>Volume spike\<close>

text \<open>\<open>sum(entry["volume"] for entry in window)\<close>.\<close>

fun sum_volume :: "hist_entry list \<Rightarrow> py_error + nat" where
  "sum_volume [] = Inr 0"
| "sum_volume (Volume v t # entries) = bind_err (sum_volume entries) (\<lambda>s. Inr (v + s))"
| "sum_volume (NegativeRatio r t # entries) = Inl KeyError"

definition check_volume_spike ::
  "alert_agent \<Rightarrow> analyzed_item list \<Rightarrow> string \<Rightarrow> string
     \<Rightarrow> (py_error + alert list) \<times> alert_agent" where
  "check_volume_spike st data platform brand_id =
     (let current_volume = length data;
          historical_key = volume_key brand_id platform;
          (t_append, st1) = time_time st;
          appended = window st1 historical_key @ [Volume current_volume t_append];
          (t_cutoff, st2) = time_time st1;
          cutoff_time = t_cutoff - 7 * 24 * 60 * 60;
          kept = filter (\<lambda>entry. entry_timestamp entry > cutoff_time) appended;
          st3 = st2\<lparr>historical_data := (historical_data st2)(historical_key \<mapsto> kept)\<rparr>
      in if length kept \<ge> 10 then
           (case sum_volume kept of
              Inl e \<Rightarrow> (Inl e, st3)
            | Inr summed \<Rightarrow>
                (let avg_volume = fdiv (arith st3) (of_nat summed) (of_nat (length kept))
                 in if of_nat current_volume
                         > fmul (arith st3) avg_volume (multiplier (alert_rules st3)) then
                      (if avg_volume = 0 then (Inl ZeroDivisionError, st3)
                       else
                         (let spike_factor = fdiv (arith st3) (of_nat current_volume) avg_volume;
                              sev = (if spike_factor > 5 then ''critical''
                                     else if spike_factor > 3 then ''high'' else ''medium'');
                              (now, st4) = time_time st3
                          in (Inr [new_alert ''volume_spike'' sev platform now], st4)))
                    else (Inr [], st3)))
         else (Inr [], st3))"

subsubsection \<open>Sentiment deterioration\<close>

definition sentiment_label :: "analyzed_item \<Rightarrow> string" where
  "sentiment_label item = (case sentiment_overall item of None \<Rightarrow> ''neutral'' | Some s \<Rightarrow> s)"

definition known_label :: "string \<Rightarrow> bool" where
  "known_label s = (s = ''positive'' \<or> s = ''negative'' \<or> s = ''neutral'')"

text \<open>
  The counting loop: \<open>sentiment_counts[sentiment] += 1\<close> raises \<open>KeyError\<close> at the
  first label that is not one of the three keys; otherwise the number of negative items
  is what the rule uses.
\<close>

definition count_negative :: "analyzed_item list \<Rightarrow> py_error + nat" where
  "count_negative data =
     (if list_all (\<lambda>item. known_label (sentiment_label item)) data
      then Inr (length (filter (\<lambda>item. sentiment_label item = ''negative'') data))
      else Inl KeyError)"

text \<open>
  The values \<open>entry["negative_ratio"]\<close> that the generator over \<open>window[:-1]\<close>
  hands to \<open>sum\<close>; a volume entry has no such key.
\<close>

fun negative_ratios :: "hist_entry list \<Rightarrow> py_error + rat list" where
  "negative_ratios [] = Inr []"
| "negative_ratios (NegativeRatio r t # entries) =
     bind_err (negative_ratios entries) (\<lambda>rs. Inr (r # rs))"
| "negative_ratios (Volume v t # entries) = Inl KeyError"

definition check_sentiment_deterioration ::
  "alert_agent \<Rightarrow> analyzed_item list \<Rightarrow> string \<Rightarrow> string
     \<Rightarrow> (py_error + alert list) \<times> alert_agent" where
  "check_sentiment_deterioration st data platform brand_id =
     (if data = [] then (Inr [], st)
      else
        (case count_negative data of
           Inl e \<Rightarrow> (Inl e, st)
         | Inr negatives \<Rightarrow>
             (let total_items = length data;
                  current_negative_ratio =
                    (if total_items > 0
                     then fdiv (arith st) (of_nat negatives) (of_nat total_items) else 0);
                  historical_key = sentiment_key brand_id platform;
                  (t_append, st1) = time_time st;
                  appended = window st1 historical_key
                               @ [NegativeRatio current_negative_ratio t_append];
                  (t_cutoff, st2) = time_time st1;
                  cutoff_time = t_cutoff - 24 * 60 * 60;
                  kept = filter (\<lambda>entry. entry_timestamp entry > cutoff_time) appended;
                  st3 = st2\<lparr>historical_data := (historical_data st2)(historical_key \<mapsto> kept)\<rparr>
              in if length kept \<ge> 5 then
                   (case negative_ratios (butlast kept) of
                      Inl e \<Rightarrow> (Inl e, st3)
                    | Inr ratios \<Rightarrow>
                        (let avg_negative_ratio =
                               fdiv (arith st3) (fsum (arith st3) ratios)
                                 (of_nat (length kept) - 1);
                             deterioration =
                               fsub (arith st3) current_negative_ratio avg_negative_ratio
                         in if deterioration > threshold_change (alert_rules st3) then
                              (let sev = (if deterioration > 5 / 10 then ''high'' else ''medium'');
                                   (now, st4) = time_time st3
                               in (Inr [new_alert ''sentiment_deterioration'' sev platform now],
                                   st4))
                            else (Inr [], st3)))
                 else (Inr [], st3))))"

subsubsection \<open>Processing a batch\<close>

text \<open>\<open>int(x)\<close> on a float: truncation towards zero.\<close>

definition py_int :: "rat \<Rightarrow> int" where
  "py_int r = (if r \<ge> 0 then \<lfloor>r\<rfloor> else \<lceil>r\<rceil>)"

text \<open>\<open>severity_order.get(severity, 1)\<close>.\<close>

definition severity_order :: "string \<Rightarrow> int" where
  "severity_order sev =
     (case map_of [(''critical'', 4), (''high'', 3), (''medium'', 2), (''low'', 1)] sev of
        None \<Rightarrow> 1 | Some n \<Rightarrow> n)"

text \<open>The first loop of \<open>_process_alerts\<close>: brand and alert id, one clock reading each.\<close>

fun tag_alerts :: "alert_agent \<Rightarrow> string \<Rightarrow> alert list \<Rightarrow> alert list \<times> alert_agent" where
  "tag_alerts st brand_id [] = ([], st)"
| "tag_alerts st brand_id (a # as) =
     (let (now, st1) = time_time st;
          a' = a\<lparr>alert_brand_id := Some brand_id,
                 alert_id := Some (brand_id, alert_type a, py_int now)\<rparr>;
          (rest, st2) = tag_alerts st1 brand_id as
      in (a' # rest, st2))"

text \<open>
  \<open>_process_alerts\<close>: the stable sort by descending severity, then descending
  timestamp, and the store of active alerts keyed by alert id.
\<close>

definition process_alerts ::
  "alert_agent \<Rightarrow> alert list \<Rightarrow> string \<Rightarrow> alert list \<times> alert_agent" where
  "process_alerts st alerts brand_id =
     (if alerts = [] then ([], st)
      else
        (let (tagged, st1) = tag_alerts st brand_id alerts;
             ordered = sort_key (\<lambda>x. (- severity_order (severity x), - alert_timestamp x)) tagged;
             st2 = st1\<lparr>active_alerts :=
                         foldl (\<lambda>m a. case alert_id a of None \<Rightarrow> m | Some i \<Rightarrow> m(i \<mapsto> a))
                           (active_alerts st1) ordered\<rparr>
         in (ordered, st2)))"

text \<open>
  The four rule calls of \<open>process_task\<close>, in the order of the source. They are
  statements of one \<open>try\<close> block, so the first exception ends the sequence.
\<close>

definition run_alert_rules ::
  "alert_agent \<Rightarrow> analyzed_item list \<Rightarrow> string \<Rightarrow> string
     \<Rightarrow> (py_error + alert list) \<times> alert_agent" where
  "run_alert_rules st data platform brand_id =
     (case check_negative_sentiment_spike st data platform brand_id of
        (Inl e, st1) \<Rightarrow> (Inl e, st1)
      | (Inr a1, st1) \<Rightarrow>
     (case check_crisis_keywords st1 data platform brand_id of
        (Inl e, st2) \<Rightarrow> (Inl e, st2)
      | (Inr a2, st2) \<Rightarrow>
     (case check_volume_spike st2 data platform brand_id of
        (Inl e, st3) \<Rightarrow> (Inl e, st3)
      | (Inr a3, st3) \<Rightarrow>
     (case check_sentiment_deterioration st3 data platform brand_id of
        (Inl e, st4) \<Rightarrow> (Inl e, st4)
      | (Inr a4, st4) \<Rightarrow> (Inr (a1 @ a2 @ a3 @ a4), st4)))))"

text \<open>The statistics loop: \<open>alerts_by_severity[severity] += 1\<close> needs the key.\<close>

fun update_alert_stats :: "alert_agent \<Rightarrow> alert list \<Rightarrow> (py_error + unit) \<times> alert_agent" where
  "update_alert_stats st [] = (Inr (), st)"
| "update_alert_stats st (a # as) =
     (let by_type = (case alerts_by_type st (alert_type a) of None \<Rightarrow> 0 | Some n \<Rightarrow> n);
          st1 = st\<lparr>alerts_by_type := (alerts_by_type st)(alert_type a \<mapsto> by_type + 1)\<rparr>
      in case alerts_by_severity st1 (severity a) of
           None \<Rightarrow> (Inl KeyError, st1)
         | Some n \<Rightarrow>
             update_alert_stats
               (st1\<lparr>alerts_by_severity := (alerts_by_severity st1)(severity a \<mapsto> n + 1)\<rparr>) as)"

text \<open>
  \<open>self.metrics["tasks_processed"] += 1\<close> and \<open>self.metrics["errors"] += 1\<close>.
  \<open>self.metrics\<close> is the \<open>AgentMetrics\<close> object that
  \<open>LangChainBaseAgent.__init__\<close> creates (base_agent.py); the class defines no
  \<open>__getitem__\<close>, so subscripting it raises \<open>TypeError\<close>.
\<close>

definition metrics_increment :: "string \<Rightarrow> py_error + unit" where
  "metrics_increment k = Inl TypeError"

record alert_task =
  analyzed_data :: "analyzed_item list"
  task_platform :: string
  task_brand_id :: string

datatype task_result =
    Success string string "alert list" nat nat rat
  | ErrorResult py_error string

fun is_success :: "py_error + task_result \<Rightarrow> bool" where
  "is_success (Inr (Success p b alerts n m t)) = True"
| "is_success _ = False"

text \<open>
  The \<open>except Exception\<close> handler of \<open>process_task\<close>: it logs the error, counts it
  and returns the error result. An exception raised inside the handler leaves
  \<open>process_task\<close> (the \<open>Inl\<close> result).
\<close>

definition handle_task_error ::
  "alert_agent \<Rightarrow> py_error \<Rightarrow> string \<Rightarrow> (py_error + task_result) \<times> alert_agent" where
  "handle_task_error st e platform =
     (let st1 = st\<lparr>error_log := error_log st @ [e]\<rparr>
      in case metrics_increment ''errors'' of
           Inl e' \<Rightarrow> (Inl e', st1)
         | Inr u \<Rightarrow> (Inr (ErrorResult e platform), st1))"

definition process_task ::
  "alert_agent \<Rightarrow> alert_task \<Rightarrow> (py_error + task_result) \<times> alert_agent" where
  "process_task st task =
     (let data = analyzed_data task;
          platform = task_platform task;
          brand_id = task_brand_id task
      in case run_alert_rules st data platform brand_id of
           (Inl e, st1) \<Rightarrow> handle_task_error st1 e platform
         | (Inr alerts, st1) \<Rightarrow>
             (let (processed_alerts, st2) = process_alerts st1 alerts brand_id;
                  st3 = st2\<lparr>total_alerts := total_alerts st2 + length processed_alerts\<rparr>
              in case update_alert_stats st3 processed_alerts of
                   (Inl e, st4) \<Rightarrow> handle_task_error st4 e platform
                 | (Inr u, st4) \<Rightarrow>
                     (case metrics_increment ''tasks_processed'' of
                        Inl e \<Rightarrow> handle_task_error st4 e platform
                      | Inr u' \<Rightarrow>
                          (let (now, st5) = time_time st4
                           in (Inr (Success platform brand_id processed_alerts
                                      (length processed_alerts) (length data) now), st5)))))"

subsection \<open>Agent inbox\<close>

text \<open>
  \<open>LangChainBaseAgent.message_queue = asyncio.Queue(maxsize=1000)\<close> and
  \<open>receive_message\<close>, which awaits \<open>message_queue.put(message)\<close> (base_agent.py).
  \<open>asyncio.Queue\<close> belongs to the Python standard library; the model follows its
  documented behaviour: the queue is full when \<open>maxsize > 0\<close> and it holds
  \<open>maxsize\<close> items, and \<open>put\<close> waits while the queue is full, then appends.
  What the other tasks do while the sender waits is a schedule: one entry per time the
  sender is looked at again, \<open>True\<close> when the worker has taken a message meanwhile.
  The result \<open>None\<close> says that the call has not returned by the end of the schedule.
\<close>

record 'm message_queue =
  items :: "'m list"
  maxsize :: nat

definition new_message_queue :: "'m message_queue" where
  "new_message_queue = \<lparr>items = [], maxsize = 1000\<rparr>"

definition full :: "'m message_queue \<Rightarrow> bool" where
  "full q = (maxsize q > 0 \<and> length (items q) \<ge> maxsize q)"

fun queue_put :: "'m message_queue \<Rightarrow> 'm \<Rightarrow> bool list \<Rightarrow> 'm message_queue option" where
  "queue_put q m [] = (if full q then None else Some (q\<lparr>items := items q @ [m]\<rparr>))"
| "queue_put q m (taken # schedule) =
     (if full q then queue_put (if taken then q\<lparr>items := tl (items q)\<rparr> else q) m schedule
      else Some (q\<lparr>items := items q @ [m]\<rparr>))"

definition receive_message ::
  "'m message_queue \<Rightarrow> 'm \<Rightarrow> bool list \<Rightarrow> 'm message_queue option" where
  "receive_message q message schedule = queue_put q message schedule"

section \<open>Theorems\<close>

subsection \<open>Sequencing of failing steps\<close>

lemma bind_err_Inl [simp]: "bind_err (Inl e) f = Inl e"
  by (simp add: bind_err_def)

lemma bind_err_Inr [simp]: "bind_err (Inr x) f = f x"
  by (simp add: bind_err_def)

lemma bind_err_eq_Inr: "bind_err m f = Inr y \<longleftrightarrow> (\<exists>x. m = Inr x \<and> f x = Inr y)"
  by (cases m) simp_all

lemma bind_err_eq_Inl:
  "bind_err m f = Inl e \<longleftrightarrow> m = Inl e \<or> (\<exists>x. m = Inr x \<and> f x = Inl e)"
  by (cases m) auto

lemma clamp01_range: "0 \<le> clamp01 x \<and> clamp01 x \<le> 1"
  by (simp add: clamp01_def)



subsection \<open>Running averages\<close>

lemma orchestration_step:
  "total_tasks (update_orchestration_metrics m ok d) = total_tasks m + 1"
  "avg_completion_time (update_orchestration_metrics m ok d) =
     (avg_completion_time m * of_nat (total_tasks m) + d) / of_nat (total_tasks m + 1)"
  by (simp_all add: update_orchestration_metrics_def Let_def)

lemma orchestration_invariant:
  "total_tasks (run_orchestration_metrics ts) = length ts \<and>
   avg_completion_time (run_orchestration_metrics ts) * of_nat (length ts) = sum_list (map snd ts)"
proof (induction ts rule: rev_induct)
  case Nil
  show ?case by (simp add: run_orchestration_metrics_def init_orchestration_metrics_def)
next
  case (snoc t ts)
  obtain ok d where t: "t = (ok, d)" by (cases t)
  let ?m = "run_orchestration_metrics ts"
  have unfold: "run_orchestration_metrics (ts @ [t]) = update_orchestration_metrics ?m ok d"
    by (simp add: run_orchestration_metrics_def t)
  from snoc have n: "total_tasks ?m = length ts"
    and s: "avg_completion_time ?m * of_nat (length ts) = sum_list (map snd ts)" by blast+
  have "avg_completion_time (update_orchestration_metrics ?m ok d) * of_nat (length ts + 1)
          = avg_completion_time ?m * of_nat (length ts) + d"
    by (simp add: orchestration_step n)
  then have "avg_completion_time (run_orchestration_metrics (ts @ [t])) * of_nat (length (ts @ [t]))
          = sum_list (map snd (ts @ [t]))"
    unfolding unfold by (simp add: s t)
  moreover have "total_tasks (run_orchestration_metrics (ts @ [t])) = length (ts @ [t])"
    unfolding unfold by (simp add: orchestration_step n)
  ultimately show ?case by blast
qed

lemma response_step:
  "total_responses_generated (update_response_metrics m r t) = total_responses_generated m + 1"
  "avg_generation_time (update_response_metrics m r t) =
     (avg_generation_time m * of_nat (total_responses_generated m) + t)
       / of_nat (total_responses_generated m + 1)"
  "avg_quality_score (update_response_metrics m r t) =
     (avg_quality_score m * of_nat (total_responses_generated m) + quality_sample r)
       / of_nat (total_responses_generated m + 1)"
  by (simp_all add: update_response_metrics_def quality_sample_def Let_def)

lemma response_invariant:
  "total_responses_generated (run_response_metrics ts) = length ts \<and>
   avg_generation_time (run_response_metrics ts) * of_nat (length ts) = sum_list (map snd ts) \<and>
   avg_quality_score (run_response_metrics ts) * of_nat (length ts)
     = sum_list (map (quality_sample \<circ> fst) ts)"
proof (induction ts rule: rev_induct)
  case Nil
  show ?case by (simp add: run_response_metrics_def init_response_metrics_def)
next
  case (snoc x ts)
  obtain r t where x: "x = (r, t)" by (cases x)
  let ?m = "run_response_metrics ts"
  have unfold: "run_response_metrics (ts @ [x]) = update_response_metrics ?m r t"
    by (simp add: run_response_metrics_def x)
  from snoc have n: "total_responses_generated ?m = length ts"
    and s: "avg_generation_time ?m * of_nat (length ts) = sum_list (map snd ts)"
    and q: "avg_quality_score ?m * of_nat (length ts) = sum_list (map (quality_sample \<circ> fst) ts)"
    by blast+
  have "avg_generation_time (update_response_metrics ?m r t) * of_nat (length ts + 1)
          = avg_generation_time ?m * of_nat (length ts) + t"
    by (simp add: response_step n)
  then have g: "avg_generation_time (run_response_metrics (ts @ [x])) * of_nat (length (ts @ [x]))
          = sum_list (map snd (ts @ [x]))"
    unfolding unfold by (simp add: s x)
  have "avg_quality_score (update_response_metrics ?m r t) * of_nat (length ts + 1)
          = avg_quality_score ?m * of_nat (length ts) + quality_sample r"
    by (simp add: response_step n)
  then have k: "avg_quality_score (run_response_metrics (ts @ [x])) * of_nat (length (ts @ [x]))
          = sum_list (map (quality_sample \<circ> fst) (ts @ [x]))"
    unfolding unfold using q by (simp add: x)
  have "total_responses_generated (run_response_metrics (ts @ [x])) = length (ts @ [x])"
    unfolding unfold by (simp add: response_step n)
  with g k show ?case by blast
qed

lemma mean_from_product:
  fixes a :: rat
  assumes "a * of_nat (length xs) = sum_list xs" and "xs = [] \<longrightarrow> a = 0"
  shows "a = naive_mean xs"
  using assms by (auto simp: naive_mean_def field_simps)

text \<open>
  C9. Starting from an average of 0.0 and a count of 0, one bookkeeping update
  \<open>newAvg = (oldAvg * (n - 1) + sample) / n\<close> per completed task leaves, after every
  task, the arithmetic mean of all samples seen so far: the incremental averages of the
  orchestrator (completion time) and of the response agent (generation time, quality
  score) equal the mean recomputed from the full history, over exact arithmetic.
\<close>

theorem running_average_is_mean:
  "avg_completion_time (run_orchestration_metrics tasks) = naive_mean (map snd tasks) \<and>
   total_tasks (run_orchestration_metrics tasks) = length tasks \<and>
   avg_generation_time (run_response_metrics results) = naive_mean (map snd results) \<and>
   avg_quality_score (run_response_metrics results)
     = naive_mean (map (quality_sample \<circ> fst) results) \<and>
   total_responses_generated (run_response_metrics results) = length results"
proof -
  have o0: "tasks = [] \<longrightarrow> avg_completion_time (run_orchestration_metrics tasks) = 0"
    by (simp add: run_orchestration_metrics_def init_orchestration_metrics_def)
  have r0: "results = [] \<longrightarrow> avg_generation_time (run_response_metrics results) = 0"
    "results = [] \<longrightarrow> avg_quality_score (run_response_metrics results) = 0"
    by (simp_all add: run_response_metrics_def init_response_metrics_def)
  have a: "avg_completion_time (run_orchestration_metrics tasks) = naive_mean (map snd tasks)"
    using orchestration_invariant [of tasks] o0 by (intro mean_from_product) simp_all
  have b: "avg_generation_time (run_response_metrics results) = naive_mean (map snd results)"
    using response_invariant [of results] r0 by (intro mean_from_product) simp_all
  have c: "avg_quality_score (run_response_metrics results)
             = naive_mean (map (quality_sample \<circ> fst) results)"
    using response_invariant [of results] r0 by (intro mean_from_product) simp_all
  show ?thesis
    using a b c orchestration_invariant [of tasks] response_invariant [of results] by simp
qed

subsection \<open>Routing after data collection\<close>

text \<open>
  C8. The router after \<open>collect_data\<close> returns "abort" when \<open>collect_data\<close> is in
  \<open>failed_steps\<close> and the retry counter has reached its cap of 2, returns
  "retry_collection" and increments the counter when \<open>collect_data\<close> is in
  \<open>failed_steps\<close> and the counter is below 2, returns "abort" when \<open>collect_data\<close>
  did not fail but no mention was collected, and returns "analyze_sentiment" otherwise.
\<close>

theorem route_after_data_collection_cases:
  "(''collect_data'' \<in> set (failed_steps state) \<and> 2 \<le> retry_counter state \<longrightarrow>
      route_after_data_collection state = (''abort'', state)) \<and>
   (''collect_data'' \<in> set (failed_steps state) \<and> retry_counter state < 2 \<longrightarrow>
      route_after_data_collection state =
        (''retry_collection'',
         state\<lparr>data_collection_retries := Some (retry_counter state + 1)\<rparr>)) \<and>
   (''collect_data'' \<notin> set (failed_steps state) \<and> collected_count state = 0 \<longrightarrow>
      route_after_data_collection state = (''abort'', state)) \<and>
   (''collect_data'' \<notin> set (failed_steps state) \<and> 0 < collected_count state \<longrightarrow>
      route_after_data_collection state = (''analyze_sentiment'', state))"
  by (simp add: route_after_data_collection_def retry_counter_def collected_count_def Let_def)

theorem route_after_data_collection_witness:
  "route_after_data_collection
     \<lparr>failed_steps = [''collect_data''], data_collection_retries = Some 2,
      mentions = Some [1::nat]\<rparr>
     = (''abort'', \<lparr>failed_steps = [''collect_data''], data_collection_retries = Some 2,
                    mentions = Some [1::nat]\<rparr>) \<and>
   route_after_data_collection
     \<lparr>failed_steps = [''collect_data''], data_collection_retries = None,
      mentions = Some [1::nat]\<rparr>
     = (''retry_collection'',
        \<lparr>failed_steps = [''collect_data''], data_collection_retries = Some 1,
         mentions = Some [1::nat]\<rparr>) \<and>
   route_after_data_collection
     \<lparr>failed_steps = [], data_collection_retries = None, mentions = Some ([]::nat list)\<rparr>
     = (''abort'', \<lparr>failed_steps = [], data_collection_retries = None,
                    mentions = Some ([]::nat list)\<rparr>) \<and>
   route_after_data_collection
     \<lparr>failed_steps = [], data_collection_retries = None, mentions = Some [1::nat]\<rparr>
     = (''analyze_sentiment'',
        \<lparr>failed_steps = [], data_collection_retries = None, mentions = Some [1::nat]\<rparr>)"
  using route_after_data_collection_cases
          [of "\<lparr>failed_steps = [''collect_data''], data_collection_retries = Some 2,
                mentions = Some [1::nat]\<rparr>"]
        route_after_data_collection_cases
          [of "\<lparr>failed_steps = [''collect_data''], data_collection_retries = None,
                mentions = Some [1::nat]\<rparr>"]
        route_after_data_collection_cases
          [of "\<lparr>failed_steps = [], data_collection_retries = None,
                mentions = Some ([]::nat list)\<rparr>"]
        route_after_data_collection_cases
          [of "\<lparr>failed_steps = [], data_collection_retries = None,
                mentions = Some [1::nat]\<rparr>"]
  by (simp add: retry_counter_def collected_count_def)


subsection \<open>Quality score\<close>

lemma quality_score_formula:
  "quality_score (ResponseQualityTool_run response original_mention brand_name) =
     (if length_ok response then 2 / 10 else 0) + (if tone_ok response then 3 / 10 else 0)
       + (if professional response then 2 / 10 else 0)
       + (if brand_in_response response brand_name then 1 / 10 else 0)
       + (if has_action response then 2 / 10 else 0)"
  by (simp add: ResponseQualityTool_run_def Let_def split: prod.splits)

lemma subset_sums_quality_bonuses:
  "subset_sums quality_bonuses =
     {0, 1 / 10, 2 / 10, 3 / 10, 4 / 10, 5 / 10, 6 / 10, 7 / 10, 8 / 10, 9 / 10, 1}"
  by (simp add: subset_sums_def quality_bonuses_def Let_def) (auto simp: field_simps)

text \<open>
  C10. On every input, the response quality evaluator returns a \<open>quality_score\<close> that is
  the sum of a subset of the fixed bonuses 0.2, 0.3, 0.2, 0.1, 0.2 (one per passed check),
  and therefore lies in the interval from 0 to 1.
\<close>

theorem quality_score_subset_sum:
  "quality_score (ResponseQualityTool_run response original_mention brand_name) =
     (if length_ok response then 2 / 10 else 0) + (if tone_ok response then 3 / 10 else 0)
       + (if professional response then 2 / 10 else 0)
       + (if brand_in_response response brand_name then 1 / 10 else 0)
       + (if has_action response then 2 / 10 else 0) \<and>
   quality_score (ResponseQualityTool_run response original_mention brand_name)
     \<in> subset_sums quality_bonuses \<and>
   0 \<le> quality_score (ResponseQualityTool_run response original_mention brand_name) \<and>
   quality_score (ResponseQualityTool_run response original_mention brand_name) \<le> 1"
proof -
  let ?q = "quality_score (ResponseQualityTool_run response original_mention brand_name)"
  have f: "?q = (if length_ok response then 2 / 10 else 0)
       + (if tone_ok response then 3 / 10 else 0)
       + (if professional response then 2 / 10 else 0)
       + (if brand_in_response response brand_name then 1 / 10 else 0)
       + (if has_action response then 2 / 10 else 0)"
    by (rule quality_score_formula)
  have m: "?q \<in> subset_sums quality_bonuses"
    unfolding subset_sums_quality_bonuses f by simp
  have r: "0 \<le> ?q \<and> ?q \<le> 1"
    unfolding f by simp
  from f m r show ?thesis by blast
qed

subsection \<open>Risk score\<close>

lemma risk_score_components:
  assumes "calculate_comprehensive_risk_score response mention quality_assessment brand_context
             = Inr analysis"
  obtains q high content detected where
    "as_number (dict_get quality_assessment ''quality_score'' (PNum (1 / 2))) = Inr q"
    "high_engagement (dict_get mention ''engagement_metrics'' (PDict [])) = Inr high"
    "py_lower (dict_get mention ''content'' (PStr '''')) = Inr content"
    "py_get (dict_get mention ''crisis_indicators'' (PDict [])) ''crisis_detected'' (PBool False)
       = Inr detected"
    "quality_risk (component_risks analysis) = (1 - q) * (30 / 100)"
    "sentiment_risk (component_risks analysis) =
       (if dict_get mention ''sentiment'' (PStr ''neutral'') = PStr ''negative'' then 2 / 10
        else if dict_get mention ''sentiment'' (PStr ''neutral'') = PStr ''positive''
        then 5 / 100 else 1 / 10) * (25 / 100)"
    "virality_risk (component_risks analysis) = (if high then 3 / 10 else 1 / 10) * (20 / 100)"
    "content_risk (component_risks analysis) =
       min 1 (fst (content_hits response content)) * (15 / 100)"
    "crisis_risk (component_risks analysis) =
       (if truthy detected then 4 / 10 else 5 / 100) * (10 / 100)"
    "overall_risk_score analysis = recompute_total (component_risks analysis)"
proof (cases "as_number (dict_get quality_assessment ''quality_score'' (PNum (1 / 2)))")
  case (Inl e)
  with assms show ?thesis by (simp add: calculate_comprehensive_risk_score_def)
next
  case q: (Inr q)
  show ?thesis
  proof (cases "high_engagement (dict_get mention ''engagement_metrics'' (PDict []))")
    case (Inl e)
    with assms show ?thesis
      by (simp add: calculate_comprehensive_risk_score_def q Let_def split_def)
  next
    case h: (Inr high)
    show ?thesis
    proof (cases "py_lower (dict_get mention ''content'' (PStr ''''))")
      case (Inl e)
      with assms show ?thesis
        by (simp add: calculate_comprehensive_risk_score_def analyze_content_risk_def q h
              Let_def split_def)
    next
      case c: (Inr content)
      show ?thesis
      proof (cases "py_get (dict_get mention ''crisis_indicators'' (PDict [])) ''crisis_detected''
                 (PBool False)")
        case (Inl e)
        with assms show ?thesis
          by (simp add: calculate_comprehensive_risk_score_def analyze_content_risk_def q h c
                Let_def split_def)
      next
        case d: (Inr detected)
        note defs = calculate_comprehensive_risk_score_def analyze_content_risk_def
          recompute_total_def q h c d Let_def split_def
        show ?thesis
        proof (rule that [OF q h c d])
          show "quality_risk (component_risks analysis) = (1 - q) * (30 / 100)"
            using assms by (clarsimp simp: defs)
          show "sentiment_risk (component_risks analysis) =
             (if dict_get mention ''sentiment'' (PStr ''neutral'') = PStr ''negative'' then 2 / 10
              else if dict_get mention ''sentiment'' (PStr ''neutral'') = PStr ''positive''
              then 5 / 100 else 1 / 10) * (25 / 100)"
            using assms by (clarsimp simp: defs)
          show "virality_risk (component_risks analysis)
                  = (if high then 3 / 10 else 1 / 10) * (20 / 100)"
            using assms by (clarsimp simp: defs)
          show "content_risk (component_risks analysis) =
             min 1 (fst (content_hits response content)) * (15 / 100)"
            using assms by (clarsimp simp: defs)
          show "crisis_risk (component_risks analysis) =
             (if truthy detected then 4 / 10 else 5 / 100) * (10 / 100)"
            using assms by (clarsimp simp: defs)
          show "overall_risk_score analysis = recompute_total (component_risks analysis)"
            using assms by (clarsimp simp: defs)
        qed
      qed
    qed
  qed
qed

text \<open>
  C2. For every risk assessment the risk scorer produces, \<open>overall_risk_score\<close> lies
  between 0 and 1 and is the sum, clamped to that interval, of the five weighted
  components it reports: quality (1 - quality score) x 0.30, sentiment base x 0.25 with base
  0.2 for negative, 0.05 for positive and 0.1 otherwise, virality (0.3 if the engagement is
  high, else 0.1) x 0.20, content min(1, hit score) x 0.15, and crisis (0.4 if a crisis was
  detected, else 0.05) x 0.10; recomputing the total from \<open>component_risks\<close> gives
  \<open>overall_risk_score\<close> again.
\<close>

theorem risk_score_is_clamped_weighted_sum:
  assumes "calculate_comprehensive_risk_score response mention quality_assessment brand_context
             = Inr analysis"
  shows "0 \<le> overall_risk_score analysis \<and> overall_risk_score analysis \<le> 1 \<and>
         overall_risk_score analysis = recompute_total (component_risks analysis) \<and>
         (\<exists>q high content detected.
            as_number (dict_get quality_assessment ''quality_score'' (PNum (1 / 2))) = Inr q \<and>
            high_engagement (dict_get mention ''engagement_metrics'' (PDict [])) = Inr high \<and>
            py_lower (dict_get mention ''content'' (PStr '''')) = Inr content \<and>
            py_get (dict_get mention ''crisis_indicators'' (PDict [])) ''crisis_detected''
              (PBool False) = Inr detected \<and>
            quality_risk (component_risks analysis) = (1 - q) * (30 / 100) \<and>
            sentiment_risk (component_risks analysis) =
              (if dict_get mention ''sentiment'' (PStr ''neutral'') = PStr ''negative''
               then 2 / 10
               else if dict_get mention ''sentiment'' (PStr ''neutral'') = PStr ''positive''
               then 5 / 100 else 1 / 10) * (25 / 100) \<and>
            virality_risk (component_risks analysis)
              = (if high then 3 / 10 else 1 / 10) * (20 / 100) \<and>
            content_risk (component_risks analysis) =
              min 1 (fst (content_hits response content)) * (15 / 100) \<and>
            crisis_risk (component_risks analysis) =
              (if truthy detected then 4 / 10 else 5 / 100) * (10 / 100))"
proof -
  from assms obtain q high content detected where
    steps: "as_number (dict_get quality_assessment ''quality_score'' (PNum (1 / 2))) = Inr q"
      "high_engagement (dict_get mention ''engagement_metrics'' (PDict [])) = Inr high"
      "py_lower (dict_get mention ''content'' (PStr '''')) = Inr content"
      "py_get (dict_get mention ''crisis_indicators'' (PDict [])) ''crisis_detected''
         (PBool False) = Inr detected"
    and parts: "quality_risk (component_risks analysis) = (1 - q) * (30 / 100)"
      "sentiment_risk (component_risks analysis) =
         (if dict_get mention ''sentiment'' (PStr ''neutral'') = PStr ''negative'' then 2 / 10
          else if dict_get mention ''sentiment'' (PStr ''neutral'') = PStr ''positive''
          then 5 / 100 else 1 / 10) * (25 / 100)"
      "virality_risk (component_risks analysis) = (if high then 3 / 10 else 1 / 10) * (20 / 100)"
      "content_risk (component_risks analysis) =
         min 1 (fst (content_hits response content)) * (15 / 100)"
      "crisis_risk (component_risks analysis) =
         (if truthy detected then 4 / 10 else 5 / 100) * (10 / 100)"
    and total: "overall_risk_score analysis = recompute_total (component_risks analysis)"
    by (rule risk_score_components)
  have range: "0 \<le> overall_risk_score analysis \<and> overall_risk_score analysis \<le> 1"
    unfolding total recompute_total_def by (rule clamp01_range)
  from steps parts total range show ?thesis by blast
qed

theorem risk_score_is_clamped_weighted_sum_witness:
  "\<exists>analysis.
     calculate_comprehensive_risk_score ''We guarantee a refund''
       [(''sentiment'', PStr ''negative''), (''content'', PStr ''I will sue'')]
       [(''quality_score'', PNum (7 / 10))] None = Inr analysis \<and>
     overall_risk_score analysis = 3 / 16 \<and>
     overall_risk_score analysis = recompute_total (component_risks analysis) \<and>
     component_risks analysis =
       \<lparr>quality_risk = 9 / 100, sentiment_risk = 1 / 20, virality_risk = 1 / 50,
        content_risk = 9 / 400, crisis_risk = 1 / 200\<rparr>"
proof -
  have run: "calculate_comprehensive_risk_score ''We guarantee a refund''
       [(''sentiment'', PStr ''negative''), (''content'', PStr ''I will sue'')]
       [(''quality_score'', PNum (7 / 10))] None =
     Inr \<lparr>overall_risk_score = 3 / 16,
          risk_factors = [''negative_customer_sentiment'', ''high_risk_topic_sue'',
                          ''strong_commitment_language''],
          component_risks =
            \<lparr>quality_risk = 9 / 100, sentiment_risk = 1 / 20, virality_risk = 1 / 50,
             content_risk = 9 / 400, crisis_risk = 1 / 200\<rparr>,
          risk_category = ''low''\<rparr>"
    by code_simp
  from risk_score_is_clamped_weighted_sum [OF run] run show ?thesis by simp
qed

subsection \<open>Approval policy\<close>

lemma body_raises_iff:
  "approval_decision_body cfg now response mention quality_assessment brand_context = Inl e \<longleftrightarrow>
     calculate_comprehensive_risk_score response mention quality_assessment brand_context = Inl e \<or>
     (\<exists>analysis.
        calculate_comprehensive_risk_score response mention quality_assessment brand_context
          = Inr analysis \<and>
        \<not> overall_risk_score analysis < AUTO_RESPONSE_RISK_THRESHOLD cfg \<and>
        \<not> overall_risk_score analysis > HUMAN_REVIEW_RISK_THRESHOLD cfg \<and>
        make_contextual_risk_decision cfg now response mention analysis brand_context = Inl e)"
  by (cases "calculate_comprehensive_risk_score response mention quality_assessment brand_context")
     (auto simp: approval_decision_body_def Let_def bind_err_eq_Inl)

text \<open>
  C1. Whenever a step inside the autonomous approval decision raises an exception (the
  risk-score computation, or the contextual decision of the middle band, the only steps
  that can raise), the returned decision has \<open>approval_status = "pending_approval"\<close>,
  \<open>requires_human_review = True\<close> and \<open>confidence = "low"\<close>: the policy never
  fails open to an approval on an internal error.
\<close>

theorem approval_fails_closed:
  assumes "calculate_comprehensive_risk_score response mention quality_assessment brand_context
             = Inl e \<or>
           (\<exists>analysis.
              calculate_comprehensive_risk_score response mention quality_assessment brand_context
                = Inr analysis \<and>
              \<not> overall_risk_score analysis < AUTO_RESPONSE_RISK_THRESHOLD cfg \<and>
              \<not> overall_risk_score analysis > HUMAN_REVIEW_RISK_THRESHOLD cfg \<and>
              make_contextual_risk_decision cfg now response mention analysis brand_context
                = Inl e)"
  shows "make_autonomous_approval_decision cfg now response mention quality_assessment
           brand_context = fail_safe_decision e \<and>
         approval_status (make_autonomous_approval_decision cfg now response mention
           quality_assessment brand_context) = ''pending_approval'' \<and>
         requires_human_review (make_autonomous_approval_decision cfg now response mention
           quality_assessment brand_context) \<and>
         confidence (make_autonomous_approval_decision cfg now response mention
           quality_assessment brand_context) = ''low'' \<and>
         \<not> autonomous_decision (make_autonomous_approval_decision cfg now response mention
           quality_assessment brand_context)"
proof -
  from assms have
    "approval_decision_body cfg now response mention quality_assessment brand_context = Inl e"
    by (simp only: body_raises_iff)
  then have "make_autonomous_approval_decision cfg now response mention quality_assessment
           brand_context = fail_safe_decision e"
    by (simp add: make_autonomous_approval_decision_def)
  then show ?thesis by (simp add: fail_safe_decision_def)
qed

theorem approval_fails_closed_witness:
  "approval_status (make_autonomous_approval_decision default_settings \<lparr>hour = 10, weekday = 2\<rparr>
      ''We guarantee a refund'' [(''platform'', PStr ''twitter'')]
      [(''quality_score'', PStr ''high'')] None) = ''pending_approval'' \<and>
   requires_human_review (make_autonomous_approval_decision default_settings
      \<lparr>hour = 10, weekday = 2\<rparr> ''We guarantee a refund'' [(''platform'', PStr ''twitter'')]
      [(''quality_score'', PStr ''high'')] None) \<and>
   confidence (make_autonomous_approval_decision default_settings \<lparr>hour = 10, weekday = 2\<rparr>
      ''We guarantee a refund'' [(''platform'', PStr ''twitter'')]
      [(''quality_score'', PStr ''high'')] None) = ''low'' \<and>
   make_autonomous_approval_decision default_settings \<lparr>hour = 10, weekday = 2\<rparr>
      ''We guarantee a refund'' [(''platform'', PNone)] [(''quality_score'', PNum 0)] None
     = fail_safe_decision AttributeError"
proof -
  have risk_raises: "calculate_comprehensive_risk_score ''We guarantee a refund''
      [(''platform'', PStr ''twitter'')] [(''quality_score'', PStr ''high'')] None = Inl TypeError"
    by code_simp
  have risk_ok: "calculate_comprehensive_risk_score ''We guarantee a refund''
      [(''platform'', PNone)] [(''quality_score'', PNum 0)] None =
      Inr \<lparr>overall_risk_score = 143 / 400,
           risk_factors = [''low_response_quality'', ''strong_commitment_language''],
           component_risks =
             \<lparr>quality_risk = 3 / 10, sentiment_risk = 1 / 40, virality_risk = 1 / 50,
              content_risk = 3 / 400, crisis_risk = 1 / 200\<rparr>,
           risk_category = ''medium''\<rparr>"
    by code_simp
  have contextual_raises: "make_contextual_risk_decision default_settings \<lparr>hour = 10, weekday = 2\<rparr>
      ''We guarantee a refund'' [(''platform'', PNone)]
      \<lparr>overall_risk_score = 143 / 400,
       risk_factors = [''low_response_quality'', ''strong_commitment_language''],
       component_risks =
         \<lparr>quality_risk = 3 / 10, sentiment_risk = 1 / 40, virality_risk = 1 / 50,
          content_risk = 3 / 400, crisis_risk = 1 / 200\<rparr>,
       risk_category = ''medium''\<rparr> None = Inl AttributeError"
    by code_simp
  have middle: "\<exists>analysis.
      calculate_comprehensive_risk_score ''We guarantee a refund''
        [(''platform'', PNone)] [(''quality_score'', PNum 0)] None = Inr analysis \<and>
      \<not> overall_risk_score analysis < AUTO_RESPONSE_RISK_THRESHOLD default_settings \<and>
      \<not> overall_risk_score analysis > HUMAN_REVIEW_RISK_THRESHOLD default_settings \<and>
      make_contextual_risk_decision default_settings \<lparr>hour = 10, weekday = 2\<rparr>
        ''We guarantee a refund'' [(''platform'', PNone)] analysis None = Inl AttributeError"
    using risk_ok contextual_raises by (simp add: default_settings_def)
  from approval_fails_closed
         [where cfg = default_settings and now = "\<lparr>hour = 10, weekday = 2\<rparr>",
          OF disjI1, OF risk_raises]
       approval_fails_closed [OF disjI2, OF middle]
  show ?thesis by blast
qed

lemma decision_low_band:
  assumes "calculate_comprehensive_risk_score response mention quality_assessment brand_context
             = Inr analysis"
    and "overall_risk_score analysis < AUTO_RESPONSE_RISK_THRESHOLD cfg"
  shows "approval_status (make_autonomous_approval_decision cfg now response mention
           quality_assessment brand_context) = ''approved_auto'' \<and>
         \<not> requires_human_review (make_autonomous_approval_decision cfg now response mention
           quality_assessment brand_context)"
  using assms
  by (simp add: make_autonomous_approval_decision_def approval_decision_body_def
        add_decision_metadata_def Let_def)

lemma decision_high_band:
  assumes "calculate_comprehensive_risk_score response mention quality_assessment brand_context
             = Inr analysis"
    and "\<not> overall_risk_score analysis < AUTO_RESPONSE_RISK_THRESHOLD cfg"
    and "overall_risk_score analysis > HUMAN_REVIEW_RISK_THRESHOLD cfg"
  shows "approval_status (make_autonomous_approval_decision cfg now response mention
           quality_assessment brand_context) = ''pending_approval'' \<and>
         requires_human_review (make_autonomous_approval_decision cfg now response mention
           quality_assessment brand_context)"
  using assms
  by (simp add: make_autonomous_approval_decision_def approval_decision_body_def
        add_decision_metadata_def Let_def)

lemma decision_middle_band:
  assumes "calculate_comprehensive_risk_score response mention quality_assessment brand_context
             = Inr analysis"
    and "\<not> overall_risk_score analysis < AUTO_RESPONSE_RISK_THRESHOLD cfg"
    and "\<not> overall_risk_score analysis > HUMAN_REVIEW_RISK_THRESHOLD cfg"
  shows "(case make_contextual_risk_decision cfg now response mention analysis brand_context of
            Inr contextual \<Rightarrow>
              approval_status (make_autonomous_approval_decision cfg now response mention
                quality_assessment brand_context) = status contextual \<and>
              requires_human_review (make_autonomous_approval_decision cfg now response mention
                quality_assessment brand_context) = requires_review contextual \<and>
              confidence (make_autonomous_approval_decision cfg now response mention
                quality_assessment brand_context) = ''medium''
          | Inl e \<Rightarrow>
              make_autonomous_approval_decision cfg now response mention
                quality_assessment brand_context = fail_safe_decision e)"
  using assms
  by (simp add: make_autonomous_approval_decision_def approval_decision_body_def
        add_decision_metadata_def Let_def split: sum.splits)

text \<open>
  C3. Threshold bands, for thresholds in their order (the auto-approval threshold not
  above the human-review threshold, as with the defaults 0.3 and 0.7; bands with a middle
  band between them presuppose it). For every approval decision whose risk score was
  computed: a score below \<open>AUTO_RESPONSE_RISK_THRESHOLD\<close> gives \<open>approved_auto\<close>
  without human review; a score above \<open>HUMAN_REVIEW_RISK_THRESHOLD\<close> gives
  \<open>pending_approval\<close> with human review; and every score from one threshold to the
  other, both boundaries included, falls into the contextual middle band: the decision is
  the contextual one, with confidence "medium", or the fail-safe one when the contextual
  decision raises.
\<close>

theorem threshold_bands:
  assumes "calculate_comprehensive_risk_score response mention quality_assessment brand_context
             = Inr analysis"
  shows
    "(overall_risk_score analysis < AUTO_RESPONSE_RISK_THRESHOLD cfg \<longrightarrow>
        approval_status (make_autonomous_approval_decision cfg now response mention
          quality_assessment brand_context) = ''approved_auto'' \<and>
        \<not> requires_human_review (make_autonomous_approval_decision cfg now response mention
          quality_assessment brand_context)) \<and>
     (AUTO_RESPONSE_RISK_THRESHOLD cfg \<le> HUMAN_REVIEW_RISK_THRESHOLD cfg \<and>
      overall_risk_score analysis > HUMAN_REVIEW_RISK_THRESHOLD cfg \<longrightarrow>
        approval_status (make_autonomous_approval_decision cfg now response mention
          quality_assessment brand_context) = ''pending_approval'' \<and>
        requires_human_review (make_autonomous_approval_decision cfg now response mention
          quality_assessment brand_context)) \<and>
     (AUTO_RESPONSE_RISK_THRESHOLD cfg \<le> overall_risk_score analysis \<and>
      overall_risk_score analysis \<le> HUMAN_REVIEW_RISK_THRESHOLD cfg \<longrightarrow>
        (case make_contextual_risk_decision cfg now response mention analysis brand_context of
           Inr contextual \<Rightarrow>
             approval_status (make_autonomous_approval_decision cfg now response mention
               quality_assessment brand_context) = status contextual \<and>
             requires_human_review (make_autonomous_approval_decision cfg now response mention
               quality_assessment brand_context) = requires_review contextual \<and>
             confidence (make_autonomous_approval_decision cfg now response mention
               quality_assessment brand_context) = ''medium''
         | Inl e \<Rightarrow>
             make_autonomous_approval_decision cfg now response mention
               quality_assessment brand_context = fail_safe_decision e))"
proof (intro conjI impI)
  assume "overall_risk_score analysis < AUTO_RESPONSE_RISK_THRESHOLD cfg"
  from decision_low_band [OF assms this]
  show "approval_status (make_autonomous_approval_decision cfg now response mention
          quality_assessment brand_context) = ''approved_auto''"
    and "\<not> requires_human_review (make_autonomous_approval_decision cfg now response mention
          quality_assessment brand_context)"
    by blast+
next
  assume h: "AUTO_RESPONSE_RISK_THRESHOLD cfg \<le> HUMAN_REVIEW_RISK_THRESHOLD cfg \<and>
      overall_risk_score analysis > HUMAN_REVIEW_RISK_THRESHOLD cfg"
  then have "\<not> overall_risk_score analysis < AUTO_RESPONSE_RISK_THRESHOLD cfg" by simp
  from decision_high_band [OF assms this] h
  show "approval_status (make_autonomous_approval_decision cfg now response mention
          quality_assessment brand_context) = ''pending_approval''"
    and "requires_human_review (make_autonomous_approval_decision cfg now response mention
          quality_assessment brand_context)"
    by blast+
next
  assume h: "AUTO_RESPONSE_RISK_THRESHOLD cfg \<le> overall_risk_score analysis \<and>
      overall_risk_score analysis \<le> HUMAN_REVIEW_RISK_THRESHOLD cfg"
  then have "\<not> overall_risk_score analysis < AUTO_RESPONSE_RISK_THRESHOLD cfg"
    and "\<not> overall_risk_score analysis > HUMAN_REVIEW_RISK_THRESHOLD cfg" by simp_all
  from decision_middle_band [OF assms this]
  show "(case make_contextual_risk_decision cfg now response mention analysis brand_context of
           Inr contextual \<Rightarrow>
             approval_status (make_autonomous_approval_decision cfg now response mention
               quality_assessment brand_context) = status contextual \<and>
             requires_human_review (make_autonomous_approval_decision cfg now response mention
               quality_assessment brand_context) = requires_review contextual \<and>
             confidence (make_autonomous_approval_decision cfg now response mention
               quality_assessment brand_context) = ''medium''
         | Inl e \<Rightarrow>
             make_autonomous_approval_decision cfg now response mention
               quality_assessment brand_context = fail_safe_decision e)" .
qed

theorem threshold_bands_witness:
  "approval_status (make_autonomous_approval_decision default_settings \<lparr>hour = 10, weekday = 2\<rparr>
      ''We guarantee a refund''
      [(''sentiment'', PStr ''negative''), (''content'', PStr ''I will sue'')]
      [(''quality_score'', PNum (7 / 10))] None) = ''approved_auto'' \<and>
   approval_status (make_autonomous_approval_decision default_settings \<lparr>hour = 10, weekday = 2\<rparr>
      ''We guarantee a refund'' [(''platform'', PStr ''twitter'')]
      [(''quality_score'', PNum (- 2))] None) = ''pending_approval'' \<and>
   requires_human_review (make_autonomous_approval_decision default_settings
      \<lparr>hour = 10, weekday = 2\<rparr> ''We guarantee a refund'' [(''platform'', PStr ''twitter'')]
      [(''quality_score'', PNum (- 2))] None) \<and>
   confidence (make_autonomous_approval_decision default_settings \<lparr>hour = 10, weekday = 2\<rparr>
      ''We guarantee a refund'' [(''platform'', PStr ''twitter'')]
      [(''quality_score'', PNum (23 / 120))] None) = ''medium''"
proof -
  let ?now = "\<lparr>hour = 10, weekday = 2\<rparr>"
  have low: "calculate_comprehensive_risk_score ''We guarantee a refund''
       [(''sentiment'', PStr ''negative''), (''content'', PStr ''I will sue'')]
       [(''quality_score'', PNum (7 / 10))] None =
     Inr \<lparr>overall_risk_score = 3 / 16,
          risk_factors = [''negative_customer_sentiment'', ''high_risk_topic_sue'',
                          ''strong_commitment_language''],
          component_risks =
            \<lparr>quality_risk = 9 / 100, sentiment_risk = 1 / 20, virality_risk = 1 / 50,
             content_risk = 9 / 400, crisis_risk = 1 / 200\<rparr>,
          risk_category = ''low''\<rparr>"
    by code_simp
  have high: "calculate_comprehensive_risk_score ''We guarantee a refund''
       [(''platform'', PStr ''twitter'')] [(''quality_score'', PNum (- 2))] None =
     Inr \<lparr>overall_risk_score = 383 / 400,
          risk_factors = [''low_response_quality'', ''strong_commitment_language''],
          component_risks =
            \<lparr>quality_risk = 9 / 10, sentiment_risk = 1 / 40, virality_risk = 1 / 50,
             content_risk = 3 / 400, crisis_risk = 1 / 200\<rparr>,
          risk_category = ''high''\<rparr>"
    by code_simp
  have boundary: "calculate_comprehensive_risk_score ''We guarantee a refund''
       [(''platform'', PStr ''twitter'')] [(''quality_score'', PNum (23 / 120))] None =
     Inr \<lparr>overall_risk_score = 3 / 10,
          risk_factors = [''low_response_quality'', ''strong_commitment_language''],
          component_risks =
            \<lparr>quality_risk = 97 / 400, sentiment_risk = 1 / 40, virality_risk = 1 / 50,
             content_risk = 3 / 400, crisis_risk = 1 / 200\<rparr>,
          risk_category = ''medium''\<rparr>"
    by code_simp
  have contextual: "make_contextual_risk_decision default_settings ?now
       ''We guarantee a refund'' [(''platform'', PStr ''twitter'')]
       \<lparr>overall_risk_score = 3 / 10,
        risk_factors = [''low_response_quality'', ''strong_commitment_language''],
        component_risks =
          \<lparr>quality_risk = 97 / 400, sentiment_risk = 1 / 40, virality_risk = 1 / 50,
           content_risk = 3 / 400, crisis_risk = 1 / 200\<rparr>,
        risk_category = ''medium''\<rparr> None =
     Inr \<lparr>status = ''approved_contextual'', requires_review = False,
          action = ''publish_immediately'',
          factors = [''twitter_fast_paced_platform'', ''business_hours_reviewers_available'']\<rparr>"
    by code_simp
  from threshold_bands [OF low, of default_settings ?now]
       threshold_bands [OF high, of default_settings ?now]
       threshold_bands [OF boundary, of default_settings ?now] contextual
  show ?thesis by (simp add: default_settings_def)
qed

subsection \<open>Historical windows\<close>

lemma volume_window_after:
  "window (snd (check_volume_spike st data platform brand_id)) (volume_key brand_id platform) =
     filter (\<lambda>entry. entry_timestamp entry > clock st (ticks st + 1) - 7 * 24 * 60 * 60)
       (window st (volume_key brand_id platform) @ [Volume (length data) (clock st (ticks st))])"
  by (simp add: check_volume_spike_def time_time_def window_def Let_def split_def
        split: sum.split)

lemma sentiment_window_after:
  assumes "data \<noteq> []" and "count_negative data = Inr negatives"
  shows "window (snd (check_sentiment_deterioration st data platform brand_id))
           (sentiment_key brand_id platform) =
     filter (\<lambda>entry. entry_timestamp entry > clock st (ticks st + 1) - 24 * 60 * 60)
       (window st (sentiment_key brand_id platform)
          @ [NegativeRatio (fdiv (arith st) (of_nat negatives) (of_nat (length data)))
               (clock st (ticks st))])"
  using assms
  by (simp add: check_sentiment_deterioration_def time_time_def window_def Let_def split_def
        split: sum.split)

text \<open>
  C7, as the code has it. After every volume-spike evaluation the volume window of the
  brand and platform holds only entries younger than 7 days at the time the rule read the
  clock for its cutoff; it is the old window with the new sample, pruned. After a
  sentiment-deterioration evaluation that reaches the window update (a batch that is not
  empty and whose sentiment labels are all known) the sentiment window holds only entries
  younger than 24 hours. An empty batch returns at once and leaves the state, and so the
  window, as it was.
\<close>

theorem windows_pruned_on_update:
  "(\<forall>entry \<in> set (window (snd (check_volume_spike st data platform brand_id))
                      (volume_key brand_id platform)).
      entry_timestamp entry > clock st (ticks st + 1) - 7 * 24 * 60 * 60) \<and>
   (data \<noteq> [] \<and> count_negative data = Inr negatives \<longrightarrow>
      (\<forall>entry \<in> set (window (snd (check_sentiment_deterioration st data platform brand_id))
                         (sentiment_key brand_id platform)).
         entry_timestamp entry > clock st (ticks st + 1) - 24 * 60 * 60)) \<and>
   snd (check_sentiment_deterioration st [] platform brand_id) = st"
proof (intro conjI impI)
  show "\<forall>entry \<in> set (window (snd (check_volume_spike st data platform brand_id))
                      (volume_key brand_id platform)).
      entry_timestamp entry > clock st (ticks st + 1) - 7 * 24 * 60 * 60"
    unfolding volume_window_after by simp
next
  assume "data \<noteq> [] \<and> count_negative data = Inr negatives"
  then have "data \<noteq> []" and "count_negative data = Inr negatives" by simp_all
  from sentiment_window_after [OF this]
  show "\<forall>entry \<in> set (window (snd (check_sentiment_deterioration st data platform brand_id))
                         (sentiment_key brand_id platform)).
         entry_timestamp entry > clock st (ticks st + 1) - 24 * 60 * 60"
    by simp
next
  show "snd (check_sentiment_deterioration st [] platform brand_id) = st"
    by (simp add: check_sentiment_deterioration_def)
qed

theorem windows_pruned_on_update_witness:
  "window (snd (check_volume_spike
       ((init_alert_agent default_alert_rules (\<lambda>n. 1000000))
          \<lparr>historical_data := [''acme_twitter'' \<mapsto> [Volume 3 1000, Volume 4 900000]]\<rparr>)
       [\<lparr>sentiment_overall = Some ''negative'', sentiment_confidence = Some (9 / 10),
         has_indicators = False, risk_level = None\<rparr>] ''twitter'' ''acme''))
     ''acme_twitter'' = [Volume 4 900000, Volume 1 1000000] \<and>
   window (snd (check_sentiment_deterioration
       ((init_alert_agent default_alert_rules (\<lambda>n. 1000000))
          \<lparr>historical_data :=
             [''acme_twitter_sentiment'' \<mapsto> [NegativeRatio (1 / 2) 1000,
                                               NegativeRatio (1 / 4) 990000]]\<rparr>)
       [\<lparr>sentiment_overall = Some ''negative'', sentiment_confidence = Some (9 / 10),
         has_indicators = False, risk_level = None\<rparr>] ''twitter'' ''acme''))
     ''acme_twitter_sentiment'' = [NegativeRatio (1 / 4) 990000, NegativeRatio 1 1000000]"
proof -
  let ?item = "\<lparr>sentiment_overall = Some ''negative'', sentiment_confidence = Some (9 / 10),
         has_indicators = False, risk_level = None\<rparr>"
  let ?sv = "(init_alert_agent default_alert_rules (\<lambda>n. 1000000))
          \<lparr>historical_data := [''acme_twitter'' \<mapsto> [Volume 3 1000, Volume 4 900000]]\<rparr>"
  let ?ss = "(init_alert_agent default_alert_rules (\<lambda>n. 1000000))
          \<lparr>historical_data :=
             [''acme_twitter_sentiment'' \<mapsto> [NegativeRatio (1 / 2) 1000,
                                               NegativeRatio (1 / 4) 990000]]\<rparr>"
  have v: "window (snd (check_volume_spike ?sv [?item] ''twitter'' ''acme'')) ''acme_twitter''
             = [Volume 4 900000, Volume 1 1000000]"
    by code_simp
  have s: "window (snd (check_sentiment_deterioration ?ss [?item] ''twitter'' ''acme''))
             ''acme_twitter_sentiment'' = [NegativeRatio (1 / 4) 990000, NegativeRatio 1 1000000]"
    by code_simp
  have c: "[?item] \<noteq> [] \<and> count_negative [?item] = Inr 1"
    by code_simp
  from windows_pruned_on_update
         [of ?sv "[?item]" "''twitter''" "''acme''" 1, THEN conjunct1]
       windows_pruned_on_update
         [of ?ss "[?item]" "''twitter''" "''acme''" 1, THEN conjunct2, THEN conjunct1,
          rule_format, OF c]
       v s
  show ?thesis by blast
qed

text \<open>
  The claim as stated fails for the sentiment window: a sample stored at time 1000 is
  still in the window after an evaluation of an empty batch made at time 200000, more
  than 24 hours later.
\<close>

theorem windows_pruned_counterexample:
  "window
     (snd (check_sentiment_deterioration
        (snd (check_sentiment_deterioration
           (init_alert_agent default_alert_rules (\<lambda>n. if n < 2 then 1000 else 200000))
           [\<lparr>sentiment_overall = Some ''negative'', sentiment_confidence = Some (9 / 10),
             has_indicators = False, risk_level = None\<rparr>] ''twitter'' ''acme''))
        [] ''twitter'' ''acme''))
     (sentiment_key ''acme'' ''twitter'') = [NegativeRatio 1 1000] \<and>
   fst (time_time
     (snd (check_sentiment_deterioration
        (snd (check_sentiment_deterioration
           (init_alert_agent default_alert_rules (\<lambda>n. if n < 2 then 1000 else 200000))
           [\<lparr>sentiment_overall = Some ''negative'', sentiment_confidence = Some (9 / 10),
             has_indicators = False, risk_level = None\<rparr>] ''twitter'' ''acme''))
        [] ''twitter'' ''acme''))) = 200000 \<and>
   \<not> entry_timestamp (NegativeRatio 1 1000) > 200000 - 24 * 60 * 60"
  by code_simp

subsection \<open>Sentiment deterioration\<close>

lemma negative_ratios_Inr:
  "negative_ratios entries = Inr rs \<Longrightarrow>
     \<exists>history. entries = map (\<lambda>(r, t). NegativeRatio r t) history \<and> rs = map fst history"
proof (induction entries arbitrary: rs rule: negative_ratios.induct)
  case 1
  then show ?case by simp
next
  case (2 r t entries)
  then obtain rs' where rs': "negative_ratios entries = Inr rs'" and rs: "rs = r # rs'"
    by (auto simp: bind_err_eq_Inr)
  from "2.IH" [OF rs'] obtain history where
    h: "entries = map (\<lambda>(r, t). NegativeRatio r t) history" "rs' = map fst history"
    by blast
  show ?case
    by (rule exI [of _ "(r, t) # history"]) (simp add: h rs)
next
  case (3 v t entries)
  then show ?case by simp
qed

lemma count_negative_Inr:
  "count_negative data = Inr n \<Longrightarrow>
     n = length (filter (\<lambda>item. sentiment_overall item = Some ''negative'') data)"
proof -
  have "(\<lambda>item. sentiment_label item = ''negative'')
          = (\<lambda>item. sentiment_overall item = Some ''negative'')"
    by (rule ext) (simp add: sentiment_label_def split: option.split)
  then show "count_negative data = Inr n \<Longrightarrow>
     n = length (filter (\<lambda>item. sentiment_overall item = Some ''negative'') data)"
    by (simp add: count_negative_def split: if_splits)
qed

lemma deterioration_result:
  assumes "data \<noteq> []" and "count_negative data = Inr negatives"
    and "clock st (ticks st + 1) - 24 * 60 * 60 < clock st (ticks st)"
  shows "fst (check_sentiment_deterioration st data platform brand_id) =
     (let current = fdiv (arith st) (of_nat negatives) (of_nat (length data));
          kept_old = filter (\<lambda>entry. entry_timestamp entry
                                        > clock st (ticks st + 1) - 24 * 60 * 60)
                       (window st (sentiment_key brand_id platform))
      in if length kept_old + 1 \<ge> 5 then
           (case negative_ratios kept_old of
              Inl e \<Rightarrow> Inl e
            | Inr rs \<Rightarrow>
                if fsub (arith st) current
                     (fdiv (arith st) (fsum (arith st) rs) (of_nat (length kept_old)))
                   > threshold_change (alert_rules st)
                then Inr [new_alert ''sentiment_deterioration''
                            (if fsub (arith st) current
                                  (fdiv (arith st) (fsum (arith st) rs)
                                     (of_nat (length kept_old))) > 5 / 10
                             then ''high'' else ''medium'')
                            platform (clock st (ticks st + 2))]
                else Inr [])
         else Inr [])"
  using assms
  by (simp add: check_sentiment_deterioration_def time_time_def window_def Let_def split_def
        split: sum.split)

text \<open>
  C6. For every batch whose negative ratio is appended to the 24-hour window (the batch is
  not empty, the rule returns, and the sample just appended is not itself older than the
  cutoff read right after it): the current ratio is the number of negative items over the
  batch size; the window becomes the pruned old window followed by the new sample; with
  fewer than 5 samples in it no alert is emitted; with at least 5 the historical mean is
  taken over all window entries except the one just appended, and exactly one alert, of
  type \<open>sentiment_deterioration\<close>, is emitted if the current ratio minus that mean
  exceeds the configured delta, and none otherwise; its severity is "high" when the
  difference exceeds 0.5 and "medium" otherwise. Ratio, mean and difference are the values
  the interpreter's float division, sum and subtraction give.
\<close>

theorem sentiment_deterioration_rule:
  assumes "data \<noteq> []"
    and "fst (check_sentiment_deterioration st data platform brand_id) = Inr alerts"
    and "clock st (ticks st + 1) - 24 * 60 * 60 < clock st (ticks st)"
  shows
    "(let negatives = length (filter (\<lambda>item. sentiment_overall item = Some ''negative'') data);
          current = fdiv (arith st) (of_nat negatives) (of_nat (length data));
          kept_old = filter (\<lambda>entry. entry_timestamp entry
                                        > clock st (ticks st + 1) - 24 * 60 * 60)
                       (window st (brand_id @ ''_'' @ platform @ ''_sentiment''));
          window' = window (snd (check_sentiment_deterioration st data platform brand_id))
                      (brand_id @ ''_'' @ platform @ ''_sentiment'')
      in window' = kept_old @ [NegativeRatio current (clock st (ticks st))] \<and>
         (length window' < 5 \<longrightarrow> alerts = []) \<and>
         (5 \<le> length window' \<longrightarrow>
            (\<exists>history.
               kept_old = map (\<lambda>(r, t). NegativeRatio r t) history \<and>
               (let mean = fdiv (arith st) (fsum (arith st) (map fst history))
                             (of_nat (length history));
                    deterioration = fsub (arith st) current mean
                in (deterioration > threshold_change (alert_rules st) \<longrightarrow>
                      alerts =
                        [\<lparr>alert_type = ''sentiment_deterioration'',
                          severity = (if deterioration > 5 / 10 then ''high'' else ''medium''),
                          alert_platform = platform,
                          alert_timestamp = clock st (ticks st + 2),
                          alert_brand_id = None, alert_id = None\<rparr>]) \<and>
                   (\<not> deterioration > threshold_change (alert_rules st) \<longrightarrow>
                      alerts = [])))))"
proof -
  define kept where
    "kept = filter (\<lambda>entry. entry_timestamp entry > clock st (ticks st + 1) - 24 * 60 * 60)
              (window st (brand_id @ ''_'' @ platform @ ''_sentiment''))"
  define thr where "thr = threshold_change (alert_rules st)"
  define emitted where
    "emitted d =
       [\<lparr>alert_type = ''sentiment_deterioration'',
         severity = (if d > 5 / 10 then ''high'' else ''medium''),
         alert_platform = platform, alert_timestamp = clock st (ticks st + 2),
         alert_brand_id = None, alert_id = None\<rparr>]" for d :: rat
  define mean_of where
    "mean_of rs n = fdiv (arith st) (fsum (arith st) rs) (of_nat n)" for rs and n :: nat
  from assms(1,2) obtain negatives where n: "count_negative data = Inr negatives"
    by (cases "count_negative data") (auto simp: check_sentiment_deterioration_def)
  have neg: "negatives
               = length (filter (\<lambda>item. sentiment_overall item = Some ''negative'') data)"
    by (rule count_negative_Inr [OF n])
  define cur where "cur = fdiv (arith st) (of_nat negatives) (of_nat (length data))"
  have w: "window (snd (check_sentiment_deterioration st data platform brand_id))
             (brand_id @ ''_'' @ platform @ ''_sentiment'')
             = kept @ [NegativeRatio cur (clock st (ticks st))]"
    using sentiment_window_after [OF assms(1) n, of st platform brand_id] assms(3)
    by (simp add: kept_def cur_def sentiment_key_def)
  have "fst (check_sentiment_deterioration st data platform brand_id) =
     (if length kept + 1 \<ge> 5 then
        (case negative_ratios kept of
           Inl e \<Rightarrow> Inl e
         | Inr rs \<Rightarrow>
             if fsub (arith st) cur (mean_of rs (length kept)) > thr
             then Inr (emitted (fsub (arith st) cur (mean_of rs (length kept))))
             else Inr [])
      else Inr [])"
    using deterioration_result [OF assms(1) n assms(3), of platform brand_id]
    unfolding Let_def kept_def thr_def emitted_def cur_def mean_of_def new_alert_def
      sentiment_key_def .
  with assms(2) have r: "Inr alerts =
     (if length kept + 1 \<ge> 5 then
        (case negative_ratios kept of
           Inl e \<Rightarrow> Inl e
         | Inr rs \<Rightarrow>
             if fsub (arith st) cur (mean_of rs (length kept)) > thr
             then Inr (emitted (fsub (arith st) cur (mean_of rs (length kept))))
             else Inr [])
      else Inr [])"
    by (rule trans [OF sym])
  have few: "length (kept @ [NegativeRatio cur (clock st (ticks st))]) < 5 \<longrightarrow> alerts = []"
    using r by (auto split: if_splits)
  have many: "5 \<le> length (kept @ [NegativeRatio cur (clock st (ticks st))]) \<longrightarrow>
      (\<exists>history.
         kept = map (\<lambda>(r, t). NegativeRatio r t) history \<and>
         (fsub (arith st) cur (mean_of (map fst history) (length history)) > thr \<longrightarrow>
            alerts = emitted (fsub (arith st) cur (mean_of (map fst history) (length history)))) \<and>
         (\<not> fsub (arith st) cur (mean_of (map fst history) (length history)) > thr \<longrightarrow>
            alerts = []))"
  proof
    assume "5 \<le> length (kept @ [NegativeRatio cur (clock st (ticks st))])"
    then have five: "length kept + 1 \<ge> 5" by simp
    with r have r': "Inr alerts =
        (case negative_ratios kept of
           Inl e \<Rightarrow> Inl e
         | Inr rs \<Rightarrow>
             if fsub (arith st) cur (mean_of rs (length kept)) > thr
             then Inr (emitted (fsub (arith st) cur (mean_of rs (length kept))))
             else Inr [])"
      by (simp only: if_True)
    then obtain rs where rs: "negative_ratios kept = Inr rs"
      by (cases "negative_ratios kept") auto
    from negative_ratios_Inr [OF rs] obtain history where
      h: "kept = map (\<lambda>(r, t). NegativeRatio r t) history"
      and hs: "rs = map fst history"
      by blast
    have len: "length kept = length history"
      by (subst h) simp
    define d where "d = fsub (arith st) cur (mean_of rs (length kept))"
    from r' [unfolded rs sum.case]
    have "(Inr alerts :: py_error + alert list)
            = (if d > thr then Inr (emitted d) else Inr [])"
      unfolding d_def .
    then have "(d > thr \<longrightarrow> alerts = emitted d) \<and> (\<not> d > thr \<longrightarrow> alerts = [])"
      by (cases "d > thr") simp_all
    then have
      "(fsub (arith st) cur (mean_of (map fst history) (length history)) > thr \<longrightarrow>
          alerts = emitted (fsub (arith st) cur (mean_of (map fst history) (length history)))) \<and>
       (\<not> fsub (arith st) cur (mean_of (map fst history) (length history)) > thr \<longrightarrow>
          alerts = [])"
      unfolding d_def len hs .
    with h show "\<exists>history.
         kept = map (\<lambda>(r, t). NegativeRatio r t) history \<and>
         (fsub (arith st) cur (mean_of (map fst history) (length history)) > thr \<longrightarrow>
            alerts = emitted (fsub (arith st) cur (mean_of (map fst history) (length history)))) \<and>
         (\<not> fsub (arith st) cur (mean_of (map fst history) (length history)) > thr \<longrightarrow>
            alerts = [])"
      by blast
  qed
  have "(let current = cur;
          kept_old = kept;
          window' = window (snd (check_sentiment_deterioration st data platform brand_id))
                      (brand_id @ ''_'' @ platform @ ''_sentiment'')
      in window' = kept_old @ [NegativeRatio current (clock st (ticks st))] \<and>
         (length window' < 5 \<longrightarrow> alerts = []) \<and>
         (5 \<le> length window' \<longrightarrow>
            (\<exists>history.
               kept_old = map (\<lambda>(r, t). NegativeRatio r t) history \<and>
               (let mean = mean_of (map fst history) (length history);
                    deterioration = fsub (arith st) current mean
                in (deterioration > thr \<longrightarrow> alerts = emitted deterioration) \<and>
                   (\<not> deterioration > thr \<longrightarrow> alerts = [])))))"
    unfolding Let_def w
  proof (intro conjI)
    show "kept @ [NegativeRatio cur (clock st (ticks st))]
            = kept @ [NegativeRatio cur (clock st (ticks st))]" by (rule refl)
    show "length (kept @ [NegativeRatio cur (clock st (ticks st))]) < 5 \<longrightarrow> alerts = []"
      by (rule few)
    show "5 \<le> length (kept @ [NegativeRatio cur (clock st (ticks st))]) \<longrightarrow>
      (\<exists>history.
         kept = map (\<lambda>(r, t). NegativeRatio r t) history \<and>
         (fsub (arith st) cur (mean_of (map fst history) (length history)) > thr \<longrightarrow>
            alerts = emitted (fsub (arith st) cur (mean_of (map fst history) (length history)))) \<and>
         (\<not> fsub (arith st) cur (mean_of (map fst history) (length history)) > thr \<longrightarrow>
            alerts = []))"
      by (rule many)
  qed
  then show ?thesis
    unfolding kept_def thr_def emitted_def cur_def mean_of_def neg Let_def .
qed

theorem sentiment_deterioration_rule_witness:
  "fst (check_sentiment_deterioration
      ((init_alert_agent default_alert_rules (\<lambda>n. 5000 + of_nat n))
         \<lparr>historical_data :=
            [''acme_twitter_sentiment'' \<mapsto>
               [NegativeRatio (1 / 2) 1000, NegativeRatio (1 / 2) 2000,
                NegativeRatio (1 / 2) 3000, NegativeRatio (1 / 2) 4000]]\<rparr>)
      [\<lparr>sentiment_overall = Some ''negative'', sentiment_confidence = Some (9 / 10),
        has_indicators = False, risk_level = None\<rparr>,
       \<lparr>sentiment_overall = Some ''negative'', sentiment_confidence = Some (9 / 10),
        has_indicators = False, risk_level = None\<rparr>,
       \<lparr>sentiment_overall = Some ''negative'', sentiment_confidence = Some (9 / 10),
        has_indicators = False, risk_level = None\<rparr>,
       \<lparr>sentiment_overall = Some ''negative'', sentiment_confidence = Some (9 / 10),
        has_indicators = False, risk_level = None\<rparr>,
       \<lparr>sentiment_overall = Some ''positive'', sentiment_confidence = Some (9 / 10),
        has_indicators = False, risk_level = None\<rparr>] ''twitter'' ''acme'')
     = Inr [\<lparr>alert_type = ''sentiment_deterioration'', severity = ''medium'',
             alert_platform = ''twitter'', alert_timestamp = 5002,
             alert_brand_id = None, alert_id = None\<rparr>] \<and>
   window (snd (check_sentiment_deterioration
      ((init_alert_agent default_alert_rules (\<lambda>n. 5000 + of_nat n))
         \<lparr>historical_data :=
            [''acme_twitter_sentiment'' \<mapsto>
               [NegativeRatio (1 / 2) 1000, NegativeRatio (1 / 2) 2000,
                NegativeRatio (1 / 2) 3000, NegativeRatio (1 / 2) 4000]]\<rparr>)
      [\<lparr>sentiment_overall = Some ''negative'', sentiment_confidence = Some (9 / 10),
        has_indicators = False, risk_level = None\<rparr>,
       \<lparr>sentiment_overall = Some ''negative'', sentiment_confidence = Some (9 / 10),
        has_indicators = False, risk_level = None\<rparr>,
       \<lparr>sentiment_overall = Some ''negative'', sentiment_confidence = Some (9 / 10),
        has_indicators = False, risk_level = None\<rparr>,
       \<lparr>sentiment_overall = Some ''negative'', sentiment_confidence = Some (9 / 10),
        has_indicators = False, risk_level = None\<rparr>,
       \<lparr>sentiment_overall = Some ''positive'', sentiment_confidence = Some (9 / 10),
        has_indicators = False, risk_level = None\<rparr>] ''twitter'' ''acme''))
     ''acme_twitter_sentiment''
     = [NegativeRatio (1 / 2) 1000, NegativeRatio (1 / 2) 2000,
        NegativeRatio (1 / 2) 3000, NegativeRatio (1 / 2) 4000,
        NegativeRatio (3602879701896397 / 4503599627370496) 5000]"
proof -
  let ?st = "(init_alert_agent default_alert_rules (\<lambda>n. 5000 + of_nat n))
         \<lparr>historical_data :=
            [''acme_twitter_sentiment'' \<mapsto>
               [NegativeRatio (1 / 2) 1000, NegativeRatio (1 / 2) 2000,
                NegativeRatio (1 / 2) 3000, NegativeRatio (1 / 2) 4000]]\<rparr>"
  let ?neg = "\<lparr>sentiment_overall = Some ''negative'', sentiment_confidence = Some (9 / 10),
        has_indicators = False, risk_level = None\<rparr>"
  let ?pos = "\<lparr>sentiment_overall = Some ''positive'', sentiment_confidence = Some (9 / 10),
        has_indicators = False, risk_level = None\<rparr>"
  let ?data = "[?neg, ?neg, ?neg, ?neg, ?pos]"
  let ?alerts = "[\<lparr>alert_type = ''sentiment_deterioration'', severity = ''medium'',
             alert_platform = ''twitter'', alert_timestamp = 5002,
             alert_brand_id = None, alert_id = None\<rparr>]"
  have nonempty: "?data \<noteq> []" by simp
  have run: "fst (check_sentiment_deterioration ?st ?data ''twitter'' ''acme'') = Inr ?alerts"
    by code_simp
  have fresh: "clock ?st (ticks ?st + 1) - 24 * 60 * 60 < clock ?st (ticks ?st)"
    by code_simp
  have appended: "window (snd (check_sentiment_deterioration ?st ?data ''twitter'' ''acme''))
      (''acme'' @ ''_'' @ ''twitter'' @ ''_sentiment'') =
    filter (\<lambda>entry. entry_timestamp entry > clock ?st (ticks ?st + 1) - 24 * 60 * 60)
      (window ?st (''acme'' @ ''_'' @ ''twitter'' @ ''_sentiment''))
    @ [NegativeRatio
         (fdiv (arith ?st)
            (of_nat (length (filter (\<lambda>item. sentiment_overall item = Some ''negative'') ?data)))
            (of_nat (length ?data)))
         (clock ?st (ticks ?st))]"
    using sentiment_deterioration_rule [OF nonempty run fresh, unfolded Let_def]
    by (rule conjunct1)
  have evaluated: "filter (\<lambda>entry. entry_timestamp entry > clock ?st (ticks ?st + 1) - 24 * 60 * 60)
      (window ?st (''acme'' @ ''_'' @ ''twitter'' @ ''_sentiment''))
    @ [NegativeRatio
         (fdiv (arith ?st)
            (of_nat (length (filter (\<lambda>item. sentiment_overall item = Some ''negative'') ?data)))
            (of_nat (length ?data)))
         (clock ?st (ticks ?st))]
    = [NegativeRatio (1 / 2) 1000, NegativeRatio (1 / 2) 2000,
        NegativeRatio (1 / 2) 3000, NegativeRatio (1 / 2) 4000,
        NegativeRatio (3602879701896397 / 4503599627370496) 5000]"
    by code_simp
  have key: "''acme'' @ ''_'' @ ''twitter'' @ ''_sentiment'' = ''acme_twitter_sentiment''"
    by simp
  have stored: "window (snd (check_sentiment_deterioration ?st ?data ''twitter'' ''acme''))
      (''acme'' @ ''_'' @ ''twitter'' @ ''_sentiment'')
    = [NegativeRatio (1 / 2) 1000, NegativeRatio (1 / 2) 2000,
        NegativeRatio (1 / 2) 3000, NegativeRatio (1 / 2) 4000,
        NegativeRatio (3602879701896397 / 4503599627370496) 5000]"
    using appended evaluated by (rule trans)
  from stored [unfolded key] run show ?thesis by (rule conjI [rotated])
qed

subsection \<open>Alert rules and their single handler\<close>

lemma negative_spike_keeps:
  "error_log (snd (check_negative_sentiment_spike st data platform brand_id)) = error_log st \<and>
   active_alerts (snd (check_negative_sentiment_spike st data platform brand_id))
     = active_alerts st \<and>
   total_alerts (snd (check_negative_sentiment_spike st data platform brand_id))
     = total_alerts st"
  by (simp add: check_negative_sentiment_spike_def time_time_def Let_def split_def
        split: sum.split)

lemma crisis_keywords_keeps:
  "error_log (snd (check_crisis_keywords st data platform brand_id)) = error_log st \<and>
   active_alerts (snd (check_crisis_keywords st data platform brand_id)) = active_alerts st \<and>
   total_alerts (snd (check_crisis_keywords st data platform brand_id)) = total_alerts st"
  by (simp add: check_crisis_keywords_def time_time_def Let_def split_def split: sum.split)

lemma volume_spike_keeps:
  "error_log (snd (check_volume_spike st data platform brand_id)) = error_log st \<and>
   active_alerts (snd (check_volume_spike st data platform brand_id)) = active_alerts st \<and>
   total_alerts (snd (check_volume_spike st data platform brand_id)) = total_alerts st"
  by (simp add: check_volume_spike_def time_time_def Let_def split_def split: sum.split)

lemma sentiment_deterioration_keeps:
  "error_log (snd (check_sentiment_deterioration st data platform brand_id)) = error_log st \<and>
   active_alerts (snd (check_sentiment_deterioration st data platform brand_id))
     = active_alerts st \<and>
   total_alerts (snd (check_sentiment_deterioration st data platform brand_id))
     = total_alerts st"
  by (simp add: check_sentiment_deterioration_def time_time_def Let_def split_def
        split: sum.split)

lemma run_alert_rules_cases:
  "run_alert_rules st data platform brand_id =
     (let r1 = check_negative_sentiment_spike st data platform brand_id;
          r2 = check_crisis_keywords (snd r1) data platform brand_id;
          r3 = check_volume_spike (snd r2) data platform brand_id;
          r4 = check_sentiment_deterioration (snd r3) data platform brand_id
      in case fst r1 of Inl e \<Rightarrow> (Inl e, snd r1) | Inr a1 \<Rightarrow>
        (case fst r2 of Inl e \<Rightarrow> (Inl e, snd r2) | Inr a2 \<Rightarrow>
          (case fst r3 of Inl e \<Rightarrow> (Inl e, snd r3) | Inr a3 \<Rightarrow>
            (case fst r4 of Inl e \<Rightarrow> (Inl e, snd r4)
                          | Inr a4 \<Rightarrow> (Inr (a1 @ a2 @ a3 @ a4), snd r4)))))"
  by (simp add: run_alert_rules_def Let_def split: prod.split sum.split)

lemma run_alert_rules_keeps:
  "error_log (snd (run_alert_rules st data platform brand_id)) = error_log st \<and>
   active_alerts (snd (run_alert_rules st data platform brand_id)) = active_alerts st \<and>
   total_alerts (snd (run_alert_rules st data platform brand_id)) = total_alerts st"
  unfolding run_alert_rules_cases Let_def
  by (simp add: negative_spike_keeps crisis_keywords_keeps volume_spike_keeps
        sentiment_deterioration_keeps split: sum.split)

lemma process_task_on_error:
  assumes "fst (run_alert_rules st (analyzed_data task) (task_platform task)
                  (task_brand_id task)) = Inl e"
  shows "process_task st task =
           (Inl TypeError,
            (snd (run_alert_rules st (analyzed_data task) (task_platform task)
                    (task_brand_id task)))
              \<lparr>error_log :=
                 error_log (snd (run_alert_rules st (analyzed_data task) (task_platform task)
                                   (task_brand_id task))) @ [e]\<rparr>)"
proof -
  obtain r st' where r: "run_alert_rules st (analyzed_data task) (task_platform task)
                  (task_brand_id task) = (r, st')"
    by (cases "run_alert_rules st (analyzed_data task) (task_platform task)
                  (task_brand_id task)")
  with assms have "r = Inl e" by simp
  with r show ?thesis
    by (simp add: process_task_def handle_task_error_def metrics_increment_def Let_def)
qed

text \<open>
  C4, as the code has it. The four rules are statements of one \<open>try\<close> block, so they
  are not isolated from each other: when a rule raises, the rules after it are not run
  (the state is the one the raising rule left), and \<open>process_task\<close> produces no success
  result, stores and counts no alert, not even those the earlier rules computed, and
  writes the error to the log.
\<close>

theorem rules_share_one_handler:
  "(fst (check_negative_sentiment_spike st data platform brand_id) = Inl e \<longrightarrow>
      run_alert_rules st data platform brand_id =
        (Inl e, snd (check_negative_sentiment_spike st data platform brand_id))) \<and>
   (fst (check_negative_sentiment_spike st data platform brand_id) = Inr a1 \<and>
    fst (check_crisis_keywords
           (snd (check_negative_sentiment_spike st data platform brand_id))
           data platform brand_id) = Inl e \<longrightarrow>
      run_alert_rules st data platform brand_id =
        (Inl e, snd (check_crisis_keywords
                       (snd (check_negative_sentiment_spike st data platform brand_id))
                       data platform brand_id))) \<and>
   (fst (check_negative_sentiment_spike st data platform brand_id) = Inr a1 \<and>
    fst (check_crisis_keywords
           (snd (check_negative_sentiment_spike st data platform brand_id))
           data platform brand_id) = Inr a2 \<and>
    fst (check_volume_spike
           (snd (check_crisis_keywords
                   (snd (check_negative_sentiment_spike st data platform brand_id))
                   data platform brand_id))
           data platform brand_id) = Inl e \<longrightarrow>
      run_alert_rules st data platform brand_id =
        (Inl e, snd (check_volume_spike
                       (snd (check_crisis_keywords
                               (snd (check_negative_sentiment_spike st data platform brand_id))
                               data platform brand_id))
                       data platform brand_id))) \<and>
   (fst (check_negative_sentiment_spike st data platform brand_id) = Inr a1 \<and>
    fst (check_crisis_keywords
           (snd (check_negative_sentiment_spike st data platform brand_id))
           data platform brand_id) = Inr a2 \<and>
    fst (check_volume_spike
           (snd (check_crisis_keywords
                   (snd (check_negative_sentiment_spike st data platform brand_id))
                   data platform brand_id))
           data platform brand_id) = Inr a3 \<and>
    fst (check_sentiment_deterioration
           (snd (check_volume_spike
                   (snd (check_crisis_keywords
                           (snd (check_negative_sentiment_spike st data platform brand_id))
                           data platform brand_id))
                   data platform brand_id))
           data platform brand_id) = Inl e \<longrightarrow>
      fst (run_alert_rules st data platform brand_id) = Inl e) \<and>
   (fst (run_alert_rules st (analyzed_data task) (task_platform task) (task_brand_id task))
      = Inl e \<longrightarrow>
      \<not> is_success (fst (process_task st task)) \<and>
      error_log (snd (process_task st task)) = error_log st @ [e] \<and>
      active_alerts (snd (process_task st task)) = active_alerts st \<and>
      total_alerts (snd (process_task st task)) = total_alerts st \<and>
      historical_data (snd (process_task st task)) =
        historical_data (snd (run_alert_rules st (analyzed_data task) (task_platform task)
                                (task_brand_id task))))"
proof (intro conjI impI)
  assume "fst (check_negative_sentiment_spike st data platform brand_id) = Inl e"
  then show "run_alert_rules st data platform brand_id =
        (Inl e, snd (check_negative_sentiment_spike st data platform brand_id))"
    unfolding run_alert_rules_cases Let_def by simp
next
  assume "fst (check_negative_sentiment_spike st data platform brand_id) = Inr a1 \<and>
    fst (check_crisis_keywords
           (snd (check_negative_sentiment_spike st data platform brand_id))
           data platform brand_id) = Inl e"
  then show "run_alert_rules st data platform brand_id =
        (Inl e, snd (check_crisis_keywords
                       (snd (check_negative_sentiment_spike st data platform brand_id))
                       data platform brand_id))"
    unfolding run_alert_rules_cases Let_def by simp
next
  assume "fst (check_negative_sentiment_spike st data platform brand_id) = Inr a1 \<and>
    fst (check_crisis_keywords
           (snd (check_negative_sentiment_spike st data platform brand_id))
           data platform brand_id) = Inr a2 \<and>
    fst (check_volume_spike
           (snd (check_crisis_keywords
                   (snd (check_negative_sentiment_spike st data platform brand_id))
                   data platform brand_id))
           data platform brand_id) = Inl e"
  then show "run_alert_rules st data platform brand_id =
        (Inl e, snd (check_volume_spike
                       (snd (check_crisis_keywords
                               (snd (check_negative_sentiment_spike st data platform brand_id))
                               data platform brand_id))
                       data platform brand_id))"
    unfolding run_alert_rules_cases Let_def by simp
next
  assume "fst (check_negative_sentiment_spike st data platform brand_id) = Inr a1 \<and>
    fst (check_crisis_keywords
           (snd (check_negative_sentiment_spike st data platform brand_id))
           data platform brand_id) = Inr a2 \<and>
    fst (check_volume_spike
           (snd (check_crisis_keywords
                   (snd (check_negative_sentiment_spike st data platform brand_id))
                   data platform brand_id))
           data platform brand_id) = Inr a3 \<and>
    fst (check_sentiment_deterioration
           (snd (check_volume_spike
                   (snd (check_crisis_keywords
                           (snd (check_negative_sentiment_spike st data platform brand_id))
                           data platform brand_id))
                   data platform brand_id))
           data platform brand_id) = Inl e"
  then show "fst (run_alert_rules st data platform brand_id) = Inl e"
    unfolding run_alert_rules_cases Let_def by simp
next
  assume raised: "fst (run_alert_rules st (analyzed_data task) (task_platform task)
                         (task_brand_id task)) = Inl e"
  note result = process_task_on_error [OF raised]
  note kept = run_alert_rules_keeps
                [of st "analyzed_data task" "task_platform task" "task_brand_id task"]
  show "\<not> is_success (fst (process_task st task))"
    by (simp add: result)
  show "error_log (snd (process_task st task)) = error_log st @ [e]"
    using kept by (simp add: result)
  show "active_alerts (snd (process_task st task)) = active_alerts st"
    using kept by (simp add: result)
  show "total_alerts (snd (process_task st task)) = total_alerts st"
    using kept by (simp add: result)
  show "historical_data (snd (process_task st task)) =
        historical_data (snd (run_alert_rules st (analyzed_data task) (task_platform task)
                                (task_brand_id task)))"
    by (simp add: result)
qed

theorem rules_share_one_handler_witness:
  "fst (run_alert_rules
         (init_alert_agent (default_alert_rules\<lparr>volume_threshold := 0\<rparr>)
            (\<lambda>n. 1000 + of_nat n))
         [\<lparr>sentiment_overall = Some ''neutral'', sentiment_confidence = Some (9 / 10),
           has_indicators = False, risk_level = None\<rparr>] ''twitter'' ''acme'')
     = Inl ZeroDivisionError \<and>
   fst (run_alert_rules
         (init_alert_agent default_alert_rules (\<lambda>n. 1000 + of_nat n))
         [\<lparr>sentiment_overall = Some ''neutral'', sentiment_confidence = Some (9 / 10),
           has_indicators = True, risk_level = Some ''severe''\<rparr>] ''twitter'' ''acme'')
     = Inl KeyError \<and>
   fst (run_alert_rules
         ((init_alert_agent default_alert_rules (\<lambda>n. 1000 + of_nat n))
            \<lparr>historical_data := [''acme_twitter'' \<mapsto> replicate 9 (NegativeRatio 0 900)]\<rparr>)
         [\<lparr>sentiment_overall = Some ''neutral'', sentiment_confidence = Some (9 / 10),
           has_indicators = False, risk_level = None\<rparr>] ''twitter'' ''acme'')
     = Inl KeyError \<and>
   fst (run_alert_rules
         (init_alert_agent default_alert_rules (\<lambda>n. 1000 + of_nat n))
         [\<lparr>sentiment_overall = Some ''mixed'', sentiment_confidence = Some (9 / 10),
           has_indicators = True, risk_level = Some ''high''\<rparr>] ''twitter'' ''acme'')
     = Inl KeyError \<and>
   \<not> is_success (fst (process_task
       (init_alert_agent default_alert_rules (\<lambda>n. 1000 + of_nat n))
       \<lparr>analyzed_data =
          [\<lparr>sentiment_overall = Some ''mixed'', sentiment_confidence = Some (9 / 10),
            has_indicators = True, risk_level = Some ''high''\<rparr>],
        task_platform = ''twitter'', task_brand_id = ''acme''\<rparr>)) \<and>
   error_log (snd (process_task
       (init_alert_agent default_alert_rules (\<lambda>n. 1000 + of_nat n))
       \<lparr>analyzed_data =
          [\<lparr>sentiment_overall = Some ''mixed'', sentiment_confidence = Some (9 / 10),
            has_indicators = True, risk_level = Some ''high''\<rparr>],
        task_platform = ''twitter'', task_brand_id = ''acme''\<rparr>)) = [KeyError] \<and>
   total_alerts (snd (process_task
       (init_alert_agent default_alert_rules (\<lambda>n. 1000 + of_nat n))
       \<lparr>analyzed_data =
          [\<lparr>sentiment_overall = Some ''mixed'', sentiment_confidence = Some (9 / 10),
            has_indicators = True, risk_level = Some ''high''\<rparr>],
        task_platform = ''twitter'', task_brand_id = ''acme''\<rparr>)) = 0"
proof -
  let ?st = "init_alert_agent default_alert_rules (\<lambda>n. 1000 + of_nat n)"
  let ?s1 = "init_alert_agent (default_alert_rules\<lparr>volume_threshold := 0\<rparr>)
               (\<lambda>n. 1000 + of_nat n)"
  let ?s3 = "(init_alert_agent default_alert_rules (\<lambda>n. 1000 + of_nat n))
            \<lparr>historical_data := [''acme_twitter'' \<mapsto> replicate 9 (NegativeRatio 0 900)]\<rparr>"
  let ?plain = "[\<lparr>sentiment_overall = Some ''neutral'', sentiment_confidence = Some (9 / 10),
           has_indicators = False, risk_level = None\<rparr>]"
  let ?severe = "[\<lparr>sentiment_overall = Some ''neutral'', sentiment_confidence = Some (9 / 10),
           has_indicators = True, risk_level = Some ''severe''\<rparr>]"
  let ?mixed = "[\<lparr>sentiment_overall = Some ''mixed'', sentiment_confidence = Some (9 / 10),
            has_indicators = True, risk_level = Some ''high''\<rparr>]"
  let ?task = "\<lparr>analyzed_data = ?mixed, task_platform = ''twitter'',
                task_brand_id = ''acme''\<rparr>"
  let ?crisis = "[new_alert ''crisis_keywords_detected'' ''high'' ''twitter'' 1000]"
  have first: "fst (check_negative_sentiment_spike ?s1 ?plain ''twitter'' ''acme'')
                 = Inl ZeroDivisionError"
    by code_simp
  have second: "fst (check_negative_sentiment_spike ?st ?severe ''twitter'' ''acme'') = Inr [] \<and>
     fst (check_crisis_keywords
            (snd (check_negative_sentiment_spike ?st ?severe ''twitter'' ''acme''))
            ?severe ''twitter'' ''acme'') = Inl KeyError"
    by code_simp
  have third: "fst (check_negative_sentiment_spike ?s3 ?plain ''twitter'' ''acme'') = Inr [] \<and>
     fst (check_crisis_keywords
            (snd (check_negative_sentiment_spike ?s3 ?plain ''twitter'' ''acme''))
            ?plain ''twitter'' ''acme'') = Inr [] \<and>
     fst (check_volume_spike
            (snd (check_crisis_keywords
                    (snd (check_negative_sentiment_spike ?s3 ?plain ''twitter'' ''acme''))
                    ?plain ''twitter'' ''acme''))
            ?plain ''twitter'' ''acme'') = Inl KeyError"
    by code_simp
  have fourth: "fst (check_negative_sentiment_spike ?st ?mixed ''twitter'' ''acme'') = Inr [] \<and>
     fst (check_crisis_keywords
            (snd (check_negative_sentiment_spike ?st ?mixed ''twitter'' ''acme''))
            ?mixed ''twitter'' ''acme'') = Inr ?crisis \<and>
     fst (check_volume_spike
            (snd (check_crisis_keywords
                    (snd (check_negative_sentiment_spike ?st ?mixed ''twitter'' ''acme''))
                    ?mixed ''twitter'' ''acme''))
            ?mixed ''twitter'' ''acme'') = Inr [] \<and>
     fst (check_sentiment_deterioration
            (snd (check_volume_spike
                    (snd (check_crisis_keywords
                            (snd (check_negative_sentiment_spike ?st ?mixed ''twitter'' ''acme''))
                            ?mixed ''twitter'' ''acme''))
                    ?mixed ''twitter'' ''acme''))
            ?mixed ''twitter'' ''acme'') = Inl KeyError"
    by code_simp
  have raised: "fst (run_alert_rules ?st (analyzed_data ?task) (task_platform ?task)
                       (task_brand_id ?task)) = Inl KeyError"
    by code_simp
  have initial: "error_log ?st = [] \<and> total_alerts ?st = 0"
    by (simp add: init_alert_agent_def)
  have c1: "fst (run_alert_rules ?s1 ?plain ''twitter'' ''acme'') = Inl ZeroDivisionError"
    using rules_share_one_handler
            [of ?s1 ?plain "''twitter''" "''acme''" ZeroDivisionError "[]" "[]" "[]" ?task,
             THEN conjunct1, rule_format, OF first]
    by simp
  have c2: "fst (run_alert_rules ?st ?severe ''twitter'' ''acme'') = Inl KeyError"
    using rules_share_one_handler
            [of ?st ?severe "''twitter''" "''acme''" KeyError "[]" "[]" "[]" ?task,
             THEN conjunct2, THEN conjunct1, rule_format, OF second]
    by simp
  have c3: "fst (run_alert_rules ?s3 ?plain ''twitter'' ''acme'') = Inl KeyError"
    using rules_share_one_handler
            [of ?s3 ?plain "''twitter''" "''acme''" KeyError "[]" "[]" "[]" ?task,
             THEN conjunct2, THEN conjunct2, THEN conjunct1, rule_format, OF third]
    by simp
  have c4: "fst (run_alert_rules ?st ?mixed ''twitter'' ''acme'') = Inl KeyError"
    using rules_share_one_handler
            [of ?st ?mixed "''twitter''" "''acme''" KeyError "[]" ?crisis "[]" ?task,
             THEN conjunct2, THEN conjunct2, THEN conjunct2, THEN conjunct1, rule_format,
             OF fourth]
    by simp
  have c5: "\<not> is_success (fst (process_task ?st ?task)) \<and>
            error_log (snd (process_task ?st ?task)) = [KeyError] \<and>
            total_alerts (snd (process_task ?st ?task)) = 0"
    using rules_share_one_handler
            [of ?st "[]" "''''" "''''" KeyError "[]" "[]" "[]" ?task,
             THEN conjunct2, THEN conjunct2, THEN conjunct2, THEN conjunct2, rule_format,
             OF raised]
          initial
    by simp
  from c1 c2 c3 c4 c5 show ?thesis by blast
qed

text \<open>
  The claim as stated fails. In the first batch only the sentiment-deterioration rule
  raises (the label "mixed" is not a key of its counters) and the crisis rule has computed
  an alert; in the second only the crisis rule raises (the risk level "severe" is not in
  its ranking). Neither batch yields a success result, the alert of the first is lost, and
  in the second the volume rule never runs, so its window stays empty.
\<close>

theorem rules_share_one_handler_counterexample:
  "fst (check_negative_sentiment_spike
         (init_alert_agent default_alert_rules (\<lambda>n. 1000 + of_nat n))
         [\<lparr>sentiment_overall = Some ''mixed'', sentiment_confidence = Some (9 / 10),
           has_indicators = True, risk_level = Some ''high''\<rparr>] ''twitter'' ''acme'') = Inr [] \<and>
   fst (check_crisis_keywords
         (init_alert_agent default_alert_rules (\<lambda>n. 1000 + of_nat n))
         [\<lparr>sentiment_overall = Some ''mixed'', sentiment_confidence = Some (9 / 10),
           has_indicators = True, risk_level = Some ''high''\<rparr>] ''twitter'' ''acme'')
     = Inr [new_alert ''crisis_keywords_detected'' ''high'' ''twitter'' 1000] \<and>
   fst (check_volume_spike
         (init_alert_agent default_alert_rules (\<lambda>n. 1000 + of_nat n))
         [\<lparr>sentiment_overall = Some ''mixed'', sentiment_confidence = Some (9 / 10),
           has_indicators = True, risk_level = Some ''high''\<rparr>] ''twitter'' ''acme'') = Inr [] \<and>
   fst (check_sentiment_deterioration
         (init_alert_agent default_alert_rules (\<lambda>n. 1000 + of_nat n))
         [\<lparr>sentiment_overall = Some ''mixed'', sentiment_confidence = Some (9 / 10),
           has_indicators = True, risk_level = Some ''high''\<rparr>] ''twitter'' ''acme'')
     = Inl KeyError \<and>
   \<not> is_success (fst (process_task
       (init_alert_agent default_alert_rules (\<lambda>n. 1000 + of_nat n))
       \<lparr>analyzed_data =
          [\<lparr>sentiment_overall = Some ''mixed'', sentiment_confidence = Some (9 / 10),
            has_indicators = True, risk_level = Some ''high''\<rparr>],
        task_platform = ''twitter'', task_brand_id = ''acme''\<rparr>)) \<and>
   total_alerts (snd (process_task
       (init_alert_agent default_alert_rules (\<lambda>n. 1000 + of_nat n))
       \<lparr>analyzed_data =
          [\<lparr>sentiment_overall = Some ''mixed'', sentiment_confidence = Some (9 / 10),
            has_indicators = True, risk_level = Some ''high''\<rparr>],
        task_platform = ''twitter'', task_brand_id = ''acme''\<rparr>)) = 0 \<and>
   fst (check_crisis_keywords
         (init_alert_agent default_alert_rules (\<lambda>n. 1000 + of_nat n))
         [\<lparr>sentiment_overall = Some ''neutral'', sentiment_confidence = Some (9 / 10),
           has_indicators = True, risk_level = Some ''severe''\<rparr>] ''twitter'' ''acme'')
     = Inl KeyError \<and>
   \<not> is_success (fst (process_task
       (init_alert_agent default_alert_rules (\<lambda>n. 1000 + of_nat n))
       \<lparr>analyzed_data =
          [\<lparr>sentiment_overall = Some ''neutral'', sentiment_confidence = Some (9 / 10),
            has_indicators = True, risk_level = Some ''severe''\<rparr>],
        task_platform = ''twitter'', task_brand_id = ''acme''\<rparr>)) \<and>
   window (snd (process_task
       (init_alert_agent default_alert_rules (\<lambda>n. 1000 + of_nat n))
       \<lparr>analyzed_data =
          [\<lparr>sentiment_overall = Some ''neutral'', sentiment_confidence = Some (9 / 10),
            has_indicators = True, risk_level = Some ''severe''\<rparr>],
        task_platform = ''twitter'', task_brand_id = ''acme''\<rparr>))
     (volume_key ''acme'' ''twitter'') = []"
  by code_simp

subsection \<open>Agent inbox\<close>

lemma queue_put_room:
  "\<not> full q \<Longrightarrow> queue_put q m schedule = Some (q\<lparr>items := items q @ [m]\<rparr>)"
  by (cases schedule) simp_all

lemma queue_put_waits:
  "full q \<Longrightarrow> queue_put q m (replicate n False) = None"
  by (induction n) simp_all

lemma queue_put_bounded:
  "queue_put q m schedule = Some q' \<Longrightarrow> 0 < maxsize q \<Longrightarrow> length (items q) \<le> maxsize q
   \<Longrightarrow> length (items q') \<le> maxsize q' \<and> maxsize q' = maxsize q"
proof (induction schedule arbitrary: q)
  case Nil
  then show ?case by (auto simp: full_def split: if_splits)
next
  case (Cons taken schedule)
  show ?case
  proof (cases "full q")
    case False
    with Cons.prems show ?thesis by (auto simp: full_def)
  next
    case True
    let ?q = "if taken then q\<lparr>items := tl (items q)\<rparr> else q"
    from True Cons.prems(1) have step: "queue_put ?q m schedule = Some q'" by simp
    have "0 < maxsize ?q" and "length (items ?q) \<le> maxsize ?q"
      using Cons.prems(2,3) by auto
    from Cons.IH [OF step this] show ?thesis by (simp split: if_splits)
  qed
qed

text \<open>
  C5. Every worker's inbox is bounded at capacity 1000. The claim that a message
  delivered to a full inbox is rejected and logged does not hold of
  \<open>receive_message\<close>: with 1000 messages in the inbox and a worker that takes none,
  the call has not returned after any number of rounds; the message is neither stored nor
  rejected, and nothing is logged.
\<close>

theorem inbox_full_send_waits:
  "maxsize (new_message_queue :: 'm message_queue) = 1000 \<and>
   full \<lparr>items = replicate 1000 (m :: 'm), maxsize = 1000\<rparr> \<and>
   receive_message \<lparr>items = replicate 1000 m, maxsize = 1000\<rparr> message (replicate n False)
     = None"
  by (simp add: new_message_queue_def receive_message_def full_def queue_put_waits)

end
